theory Spec2Isabelle
  imports Complex_Main "HOL-Library.AList" "HOL-Library.Product_Lexorder"
begin

section \<open>Data model\<close>

subsection \<open>Cells\<close>

text \<open>
  A cell of a pandas frame. \<open>Null\<close> stands for every missing value (\<open>NaN\<close>, \<open>None\<close>,
  \<open>NaT\<close>), which is what \<open>isna\<close>, \<open>dropna\<close> and \<open>fillna\<close> look at. A number is a
  real: IEEE rounding and overflow are not modelled, the special values are (a division by
  zero gives an infinity or a \<open>NaN\<close>, and an infinity is not a missing value). A timestamp
  is held as the number of seconds since the epoch (UTC) that \<open>pd.to_datetime\<close> reads
  from it. A value the pipeline only carries along (a device id, a JSON text) is any
  non-null cell.
\<close>

datatype cell = Null | Num real | PosInf | NegInf

definition isna :: "cell \<Rightarrow> bool" where
  "isna c = (c = Null)"

fun fl_neg :: "cell \<Rightarrow> cell" where
  "fl_neg Null = Null"
| "fl_neg (Num a) = Num (- a)"
| "fl_neg PosInf = NegInf"
| "fl_neg NegInf = PosInf"

fun fl_add :: "cell \<Rightarrow> cell \<Rightarrow> cell" where
  "fl_add Null b = Null"
| "fl_add a Null = Null"
| "fl_add (Num a) (Num b) = Num (a + b)"
| "fl_add PosInf NegInf = Null"
| "fl_add NegInf PosInf = Null"
| "fl_add PosInf b = PosInf"
| "fl_add NegInf b = NegInf"
| "fl_add (Num a) b = b"

definition fl_sub :: "cell \<Rightarrow> cell \<Rightarrow> cell" where
  "fl_sub a b = fl_add a (fl_neg b)"

fun fl_mul :: "cell \<Rightarrow> cell \<Rightarrow> cell" where
  "fl_mul Null b = Null"
| "fl_mul a Null = Null"
| "fl_mul (Num a) (Num b) = Num (a * b)"
| "fl_mul (Num a) PosInf = (if a = 0 then Null else if 0 < a then PosInf else NegInf)"
| "fl_mul (Num a) NegInf = (if a = 0 then Null else if 0 < a then NegInf else PosInf)"
| "fl_mul PosInf (Num b) = (if b = 0 then Null else if 0 < b then PosInf else NegInf)"
| "fl_mul NegInf (Num b) = (if b = 0 then Null else if 0 < b then NegInf else PosInf)"
| "fl_mul PosInf PosInf = PosInf"
| "fl_mul NegInf NegInf = PosInf"
| "fl_mul PosInf NegInf = NegInf"
| "fl_mul NegInf PosInf = NegInf"

text \<open>Float division as numpy does it: \<open>0/0\<close> is \<open>NaN\<close>, \<open>x/0\<close> an infinity.\<close>

fun fl_div :: "cell \<Rightarrow> cell \<Rightarrow> cell" where
  "fl_div Null b = Null"
| "fl_div a Null = Null"
| "fl_div (Num a) (Num b) =
     (if b \<noteq> 0 then Num (a / b)
      else if a = 0 then Null else if 0 < a then PosInf else NegInf)"
| "fl_div (Num a) b = Num 0"
| "fl_div PosInf (Num b) = (if 0 \<le> b then PosInf else NegInf)"
| "fl_div NegInf (Num b) = (if 0 \<le> b then NegInf else PosInf)"
| "fl_div a b = Null"

text \<open>
  The two transcendental functions of numpy that the pipeline uses, on the finite
  arguments where they are defined: the square root on \<open>x \<ge> 0\<close> and \<open>log1p\<close> on
  \<open>x > -1\<close>. They are taken as given; \<open>np_real\<close> are the exact ones.
\<close>

record numpy =
  np_sqrt :: "real \<Rightarrow> real"
  np_log1p :: "real \<Rightarrow> real"

definition np_real :: numpy where
  "np_real = \<lparr>np_sqrt = sqrt, np_log1p = (\<lambda>x. ln (1 + x))\<rparr>"

fun fl_sqrt :: "numpy \<Rightarrow> cell \<Rightarrow> cell" where
  "fl_sqrt np (Num a) = (if 0 \<le> a then Num (np_sqrt np a) else Null)"
| "fl_sqrt np PosInf = PosInf"
| "fl_sqrt np c = Null"

fun fl_abs :: "cell \<Rightarrow> cell" where
  "fl_abs (Num a) = Num \<bar>a\<bar>"
| "fl_abs Null = Null"
| "fl_abs c = PosInf"

text \<open>\<open>np.log1p\<close>: \<open>-inf\<close> at \<open>-1\<close>, \<open>NaN\<close> below.\<close>

fun log1p :: "numpy \<Rightarrow> cell \<Rightarrow> cell" where
  "log1p np (Num a) =
     (if - 1 < a then Num (np_log1p np a) else if a = - 1 then NegInf else Null)"
| "log1p np PosInf = PosInf"
| "log1p np c = Null"

text \<open>
  The order of the values, used by the comparisons and by sorting: \<open>-inf\<close>, the numbers,
  \<open>+inf\<close>, and the missing values last (\<open>na_position='last'\<close>).
\<close>

fun ord_key :: "cell \<Rightarrow> nat \<times> real" where
  "ord_key NegInf = (0, 0)"
| "ord_key (Num a) = (1, a)"
| "ord_key PosInf = (2, 0)"
| "ord_key Null = (3, 0)"

text \<open>A comparison with a missing value is false.\<close>

definition fl_gt :: "cell \<Rightarrow> cell \<Rightarrow> bool" where
  "fl_gt a b = (a \<noteq> Null \<and> b \<noteq> Null \<and> ord_key b < ord_key a)"

definition fl_ge :: "cell \<Rightarrow> cell \<Rightarrow> bool" where
  "fl_ge a b = (a \<noteq> Null \<and> b \<noteq> Null \<and> ord_key b \<le> ord_key a)"

definition fl_le :: "cell \<Rightarrow> cell \<Rightarrow> bool" where
  "fl_le a b = fl_ge b a"

text \<open>\<open>.astype(int)\<close> of a boolean.\<close>

definition astype_int :: "bool \<Rightarrow> cell" where
  "astype_int b = (if b then Num 1 else Num 0)"

subsection \<open>Series\<close>

text \<open>A series is the list of the cells of one column, in row order.\<close>

type_synonym series = "cell list"

text \<open>Reading a position; every read of the model is in range on a well-formed frame.\<close>

definition cell_at :: "series \<Rightarrow> nat \<Rightarrow> cell" where
  "cell_at xs i = (if i < length xs then xs ! i else Null)"

definition notna_values :: "series \<Rightarrow> series" where
  "notna_values xs = filter (\<lambda>c. c \<noteq> Null) xs"

text \<open>The reductions skip missing values (\<open>skipna=True\<close>).\<close>

definition series_sum :: "series \<Rightarrow> cell" where
  "series_sum xs = foldl fl_add (Num 0) (notna_values xs)"

definition series_mean :: "series \<Rightarrow> cell" where
  "series_mean xs =
     (let vs = notna_values xs in
      if vs = [] then Null else fl_div (series_sum vs) (Num (real (length vs))))"

text \<open>
  The sample standard deviation (\<open>ddof=1\<close>): missing below two observations. Only the
  missing values of the series are skipped: a squared deviation that is \<open>NaN\<close> (an
  infinity minus an infinite mean) stays in the sum, so the deviation of a series that
  holds an infinity is \<open>NaN\<close>.
\<close>

definition series_std :: "numpy \<Rightarrow> series \<Rightarrow> cell" where
  "series_std np xs =
     (let vs = notna_values xs; n = length vs in
      if n < 2 then Null
      else let m = series_mean vs in
        fl_sqrt np (fl_div (foldl fl_add (Num 0) (map (\<lambda>v. fl_mul (fl_sub v m) (fl_sub v m)) vs))
                        (Num (real (n - 1)))))"

definition fl_min2 :: "cell \<Rightarrow> cell \<Rightarrow> cell" where
  "fl_min2 a b = (if fl_gt a b then b else a)"

definition fl_max2 :: "cell \<Rightarrow> cell \<Rightarrow> cell" where
  "fl_max2 a b = (if fl_gt b a then b else a)"

definition series_min :: "series \<Rightarrow> cell" where
  "series_min xs = (case notna_values xs of [] \<Rightarrow> Null | v # vs \<Rightarrow> foldl fl_min2 v vs)"

definition series_max :: "series \<Rightarrow> cell" where
  "series_max xs = (case notna_values xs of [] \<Rightarrow> Null | v # vs \<Rightarrow> foldl fl_max2 v vs)"

text \<open>\<open>Series.shift(k)\<close> for \<open>k \<ge> 0\<close> and \<open>Series.shift(-k)\<close>.\<close>

definition series_shift :: "nat \<Rightarrow> series \<Rightarrow> series" where
  "series_shift k xs = replicate (min k (length xs)) Null @ take (length xs - k) xs"

definition series_shift_back :: "nat \<Rightarrow> series \<Rightarrow> series" where
  "series_shift_back k xs = drop k xs @ replicate (min k (length xs)) Null"

definition series_diff :: "series \<Rightarrow> series" where
  "series_diff xs = map2 fl_sub xs (series_shift 1 xs)"

text \<open>
  \<open>Series.pct_change()\<close> with its default \<open>fill_method='pad'\<close>: missing values are
  forward-filled, then each value is divided by its predecessor.
\<close>

fun ffill_from :: "cell \<Rightarrow> series \<Rightarrow> series" where
  "ffill_from prev [] = []"
| "ffill_from prev (x # xs) = (if x = Null then prev # ffill_from prev xs else x # ffill_from x xs)"

definition pct_change :: "series \<Rightarrow> series" where
  "pct_change xs =
     (let d = ffill_from Null xs in
      map2 (\<lambda>a b. fl_sub (fl_div a b) (Num 1)) d (series_shift 1 d))"

text \<open>
  \<open>Series.rolling(window=w, min_periods=1)\<close>: the window of row \<open>i\<close> is the last \<open>w\<close>
  rows up to \<open>i\<close>, fewer at the start; pandas turns infinities into \<open>NaN\<close> before a
  rolling reduction, and the reduction skips missing values.
\<close>

definition finite_only :: "cell \<Rightarrow> cell" where
  "finite_only c = (case c of Num a \<Rightarrow> Num a | _ \<Rightarrow> Null)"

definition window_at :: "nat \<Rightarrow> series \<Rightarrow> nat \<Rightarrow> series" where
  "window_at w xs i = drop (Suc i - w) (take (Suc i) xs)"

definition rolling :: "nat \<Rightarrow> (series \<Rightarrow> cell) \<Rightarrow> series \<Rightarrow> series" where
  "rolling w agg xs = map (\<lambda>i. agg (window_at w (map finite_only xs) i)) [0..<length xs]"

subsection \<open>Frames\<close>

text \<open>
  A \<open>DataFrame\<close>: the number of rows (its index, always \<open>0..n-1\<close> where the pipeline
  computes) and the columns in order, each with its series. The frame is polymorphic in
  the cell: the database frames of the collector also hold texts.
\<close>

record 'c frame =
  nrows :: nat
  cols :: "(string \<times> 'c list) list"

definition columns :: "'c frame \<Rightarrow> string list" where
  "columns df = map fst (cols df)"

text \<open>\<open>df.empty\<close>: an axis of length zero.\<close>

definition empty_frame :: "'c frame \<Rightarrow> bool" where
  "empty_frame df = (nrows df = 0 \<or> cols df = [])"

text \<open>\<open>pd.DataFrame()\<close>.\<close>

definition DataFrame :: "'c frame" where
  "DataFrame = \<lparr>nrows = 0, cols = []\<rparr>"

text \<open>\<open>df[name] = series\<close>: replaces the column in place, or appends a new one.\<close>

definition set_col :: "'c frame \<Rightarrow> string \<Rightarrow> 'c list \<Rightarrow> 'c frame" where
  "set_col df name xs = df\<lparr>cols := AList.update name xs (cols df)\<rparr>"

text \<open>Selecting rows by position (\<open>take\<close>), for sorting and for \<open>dropna\<close>.\<close>

definition take_rows :: "cell frame \<Rightarrow> nat list \<Rightarrow> cell frame" where
  "take_rows df idx =
     \<lparr>nrows = length idx, cols = map (\<lambda>(name, xs). (name, map (cell_at xs) idx)) (cols df)\<rparr>"

text \<open>
  \<open>df.sort_values(by).reset_index(drop=True)\<close>, given the series of the key column: ascending,
  missing keys last. The code sorts the raw column before \<open>pd.to_datetime\<close> reads it, with
  pandas' default quicksort. The model orders the instants and keeps rows with equal keys
  in their order; that is the order of the code when no two rows have the same timestamp
  and the raw values order as their instants do (datetimes, or texts in one zero-padded
  ISO format). For other frames the order of the code is not modelled. The proofs of the
  general theorems below do not use the order of the rows, and the concrete inputs have
  distinct, increasing timestamps.
\<close>

definition sort_values :: "cell frame \<Rightarrow> series \<Rightarrow> cell frame" where
  "sort_values df key = take_rows df (sort_key (\<lambda>i. ord_key (cell_at key i)) [0..<nrows df])"

text \<open>\<open>df.dropna()\<close>: keeps the rows with no missing value in any column.\<close>

definition row_complete :: "cell frame \<Rightarrow> nat \<Rightarrow> bool" where
  "row_complete df i = list_all (\<lambda>(name, xs). cell_at xs i \<noteq> Null) (cols df)"

definition dropna :: "cell frame \<Rightarrow> cell frame" where
  "dropna df = take_rows df (filter (row_complete df) [0..<nrows df])"

text \<open>\<open>df.fillna(0)\<close>.\<close>

definition fillna0 :: "cell frame \<Rightarrow> cell frame" where
  "fillna0 df = df\<lparr>cols := map (\<lambda>(name, xs). (name, map (\<lambda>c. if c = Null then Num 0 else c) xs)) (cols df)\<rparr>"

text \<open>A reduction along each row (\<open>axis=1\<close>) of the listed series.\<close>

definition row_wise :: "nat \<Rightarrow> (series \<Rightarrow> cell) \<Rightarrow> series list \<Rightarrow> series" where
  "row_wise n agg xss = map (\<lambda>i. agg (map (\<lambda>xs. cell_at xs i) xss)) [0..<n]"

subsection \<open>Errors and the log\<close>

text \<open>The exceptions of the pipeline, as values; \<open>error_str\<close> is \<open>str(e)\<close>.\<close>

datatype error =
    KeyError string
  | ValueError string
  | IndexError string
  | TypeError string
  | OtherError string

fun error_str :: "error \<Rightarrow> string" where
  "error_str (KeyError k) = CHR 0x27 # k @ [CHR 0x27]"
| "error_str (ValueError m) = m"
| "error_str (IndexError m) = m"
| "error_str (TypeError m) = m"
| "error_str (OtherError m) = m"

datatype log_level = INFO | WARNING | ERROR

type_synonym logger = "(log_level \<times> string) list"

definition log_to :: "logger \<Rightarrow> log_level \<Rightarrow> string \<Rightarrow> logger" where
  "log_to lg lvl msg = lg @ [(lvl, msg)]"

text \<open>The decimal text of a number, as an f-string prints it.\<close>

definition digit_char :: "nat \<Rightarrow> char" where
  "digit_char d = ''0123456789'' ! (d mod 10)"

fun str_nat :: "nat \<Rightarrow> string" where
  "str_nat n = (if n < 10 then [digit_char n] else str_nat (n div 10) @ [digit_char (n mod 10)])"

declare str_nat.simps [simp del]


section \<open>FeatureEngineer\<close>

text \<open>
  The methods of \<open>feature_engineering.py\<close>. A private method keeps its name without the
  leading underscore (\<open>_add_lag_features\<close> is \<open>add_lag_features\<close>).
  \<open>self.window_size\<close> is a natural number; a negative window is refused by pandas like
  the window 0.
\<close>

record FeatureEngineer =
  window_size :: nat

text \<open>\<open>FeatureEngineer()\<close> with the default \<open>window_size=10\<close>.\<close>

definition FeatureEngineer_default :: FeatureEngineer where
  "FeatureEngineer_default = \<lparr>window_size = 10\<rparr>"

text \<open>
  \<open>pd.to_datetime\<close> and the \<open>.dt\<close> accessors on seconds since the epoch; a cell that is
  no instant is \<open>NaT\<close>. 1970-01-01 was a Thursday (\<open>dayofweek = 3\<close>).
\<close>

definition to_datetime :: "cell \<Rightarrow> cell" where
  "to_datetime c = (case c of Num t \<Rightarrow> Num t | _ \<Rightarrow> Null)"

definition dt_hour :: "cell \<Rightarrow> cell" where
  "dt_hour c = (case c of Num t \<Rightarrow> Num (of_int ((\<lfloor>t\<rfloor> div 3600) mod 24)) | _ \<Rightarrow> Null)"

definition dt_dayofweek :: "cell \<Rightarrow> cell" where
  "dt_dayofweek c = (case c of Num t \<Rightarrow> Num (of_int ((\<lfloor>t\<rfloor> div 86400 + 3) mod 7)) | _ \<Rightarrow> Null)"

text \<open>The series of a column that the caller has checked to be there.\<close>

definition col_of :: "'c frame \<Rightarrow> string \<Rightarrow> 'c list" where
  "col_of df name = (case map_of (cols df) name of Some xs \<Rightarrow> xs | None \<Rightarrow> [])"

definition add_basic_features :: "numpy \<Rightarrow> cell frame \<Rightarrow> cell frame" where
  "add_basic_features np df =
     (let df = (case map_of (cols df) ''timestamp'' of
                  None \<Rightarrow> df
                | Some ts \<Rightarrow>
                    let hour = map (\<lambda>c. dt_hour (to_datetime c)) ts;
                        df = set_col df ''hour'' hour;
                        day_of_week = map (\<lambda>c. dt_dayofweek (to_datetime c)) ts;
                        df = set_col df ''day_of_week'' day_of_week;
                        df = set_col df ''is_weekend''
                               (map (\<lambda>d. astype_int (fl_ge d (Num 5))) day_of_week);
                        df = set_col df ''is_night''
                               (map (\<lambda>h. astype_int (fl_ge h (Num 20) \<or> fl_le h (Num 6))) hour)
                    in df)
      in case map_of (cols df) ''ambient_light'' of
           None \<Rightarrow> df
         | Some al \<Rightarrow>
             let df = set_col df ''ambient_light_squared'' (map (\<lambda>c. fl_mul c c) al);
                 df = set_col df ''ambient_light_log'' (map (log1p np) al)
             in df)"

definition add_temporal_features :: "cell frame \<Rightarrow> cell frame" where
  "add_temporal_features df =
     (case map_of (cols df) ''timestamp'' of
        None \<Rightarrow> df
      | Some raw \<Rightarrow>
          let ts = map to_datetime raw;
              df = set_col df ''timestamp'' ts;
              start = series_min ts
          in set_col df ''time_since_start''
               (map (\<lambda>t. fl_div (fl_sub t start) (Num 3600)) ts))"

text \<open>
  The body of the loop of \<open>_add_rolling_features\<close> for one column. None of the six names
  that are assigned is the column itself, so each \<open>df[col]\<close> reads the same series.
  pandas refuses \<open>min_periods=1\<close> with a window of 0.
\<close>

definition add_rolling_col ::
  "numpy \<Rightarrow> nat \<Rightarrow> cell frame \<Rightarrow> string \<Rightarrow> error + cell frame" where
  "add_rolling_col np w df col =
     (case map_of (cols df) col of
        None \<Rightarrow> Inr df
      | Some xs \<Rightarrow>
          if w < 1 then Inl (ValueError ''min_periods 1 must be <= window 0'')
          else
            let df = set_col df (col @ ''_rolling_mean'') (rolling w series_mean xs);
                df = set_col df (col @ ''_rolling_std'') (rolling w (series_std np) xs);
                df = set_col df (col @ ''_rolling_min'') (rolling w series_min xs);
                df = set_col df (col @ ''_rolling_max'') (rolling w series_max xs);
                df = set_col df (col @ ''_diff'') (series_diff xs);
                df = set_col df (col @ ''_pct_change'') (pct_change xs)
            in Inr df)"

text \<open>A \<open>for\<close> loop over names whose body may raise.\<close>

fun for_each :: "('s \<Rightarrow> 'a \<Rightarrow> error + 's) \<Rightarrow> 's \<Rightarrow> 'a list \<Rightarrow> error + 's" where
  "for_each body s [] = Inr s"
| "for_each body s (x # xs) =
     (case body s x of Inl e \<Rightarrow> Inl e | Inr s' \<Rightarrow> for_each body s' xs)"

definition numeric_cols :: "string list" where
  "numeric_cols = [''ambient_light'', ''active_lights_count'', ''faulty_lights_count'']"

definition add_rolling_features ::
  "numpy \<Rightarrow> FeatureEngineer \<Rightarrow> cell frame \<Rightarrow> error + cell frame" where
  "add_rolling_features np self df =
     for_each (add_rolling_col np (window_size self)) df numeric_cols"

definition light_cols :: "string list" where
  "light_cols = [''light_1_ldr'', ''light_2_ldr'', ''light_3_ldr'', ''light_4_ldr'']"

definition light_fault_cols :: "string list" where
  "light_fault_cols = [''light_1_fault'', ''light_2_fault'', ''light_3_fault'', ''light_4_fault'']"

definition light_state_cols :: "string list" where
  "light_state_cols = [''light_1_state'', ''light_2_state'', ''light_3_state'', ''light_4_state'']"

definition available :: "cell frame \<Rightarrow> string list \<Rightarrow> string list" where
  "available df names = filter (\<lambda>c. c \<in> set (columns df)) names"

definition add_light_features :: "numpy \<Rightarrow> cell frame \<Rightarrow> cell frame" where
  "add_light_features np df =
     (let available_light_cols = available df light_cols;
          df = (if available_light_cols \<noteq> [] then
                  let df = set_col df ''mean_light_ldr''
                             (row_wise (nrows df) series_mean (map (col_of df) available_light_cols));
                      df = set_col df ''std_light_ldr''
                             (row_wise (nrows df) (series_std np) (map (col_of df) available_light_cols));
                      df = set_col df ''min_light_ldr''
                             (row_wise (nrows df) series_min (map (col_of df) available_light_cols));
                      df = set_col df ''max_light_ldr''
                             (row_wise (nrows df) series_max (map (col_of df) available_light_cols))
                  in df
                else df);
          available_fault_cols = available df light_fault_cols;
          df = (if available_fault_cols \<noteq> [] then
                  let df = set_col df ''total_faults''
                             (row_wise (nrows df) series_sum (map (col_of df) available_fault_cols));
                      df = set_col df ''fault_rate''
                             (map (\<lambda>t. fl_div t (Num (real (length available_fault_cols))))
                                (col_of df ''total_faults''))
                  in df
                else df);
          available_state_cols = available df light_state_cols;
          df = (if available_state_cols \<noteq> [] then
                  let df = set_col df ''total_active''
                             (row_wise (nrows df) series_sum (map (col_of df) available_state_cols));
                      df = set_col df ''active_rate''
                             (map (\<lambda>t. fl_div t (Num (real (length available_state_cols))))
                                (col_of df ''total_active''))
                  in df
                else df)
      in df)"

text \<open>The default of the parameter \<open>lags\<close>; no caller passes another list.\<close>

definition default_lags :: "nat list" where
  "default_lags = [1, 3, 6]"

text \<open>
  The inner loop of \<open>_add_lag_features\<close>, for one column that is there: a lag name is
  never the column itself, so \<open>df[col]\<close> is the same series for every lag.
\<close>

definition add_lag_col :: "nat list \<Rightarrow> cell frame \<Rightarrow> string \<Rightarrow> cell frame" where
  "add_lag_col lags df col =
     (case map_of (cols df) col of
        None \<Rightarrow> df
      | Some xs \<Rightarrow>
          fold (\<lambda>lag df. set_col df (col @ ''_lag_'' @ str_nat lag) (series_shift lag xs)) lags df)"

definition add_lag_features :: "cell frame \<Rightarrow> nat list \<Rightarrow> cell frame" where
  "add_lag_features df lags = fold (\<lambda>col df. add_lag_col lags df col) numeric_cols df"

definition create_target :: "numpy \<Rightarrow> cell frame \<Rightarrow> string \<Rightarrow> cell frame" where
  "create_target np df target_type =
     (if target_type = ''failure'' then
        (case map_of (cols df) ''faulty_lights_count'' of
           None \<Rightarrow> df
         | Some f \<Rightarrow>
             let target = map2 (\<lambda>a b. astype_int (fl_gt a (Num 0) \<or> fl_gt b (Num 0)))
                            (series_shift_back 6 f) (series_shift_back 3 f);
                 df = set_col df ''target_failure'' target
             in set_col df ''target_failure''
                  (map (\<lambda>c. if c = Null then Num 0 else c) (col_of df ''target_failure'')))
      else if target_type = ''anomaly'' then
        (case map_of (cols df) ''ambient_light'' of
           None \<Rightarrow> df
         | Some al \<Rightarrow>
             let mean = series_mean al;
                 std = series_std np al
             in set_col df ''target_anomaly''
                  (map (\<lambda>c. astype_int (fl_gt (fl_abs (fl_sub c mean)) (fl_mul (Num 2) std))) al))
      else df)"

text \<open>
  The body of \<open>create_features\<close> from the sort to the target (lines 41 to 62): the frame
  that \<open>dropna\<close> then prunes. Sorting by a column that is not there raises \<open>KeyError\<close>.
  \<open>if target_col:\<close> is false for \<open>None\<close> and for the empty string.
\<close>

definition engineer ::
  "numpy \<Rightarrow> FeatureEngineer \<Rightarrow> cell frame \<Rightarrow> string option \<Rightarrow> error + cell frame" where
  "engineer np self df target_col =
     (case map_of (cols df) ''timestamp'' of
        None \<Rightarrow> Inl (KeyError ''timestamp'')
      | Some key \<Rightarrow>
          let df = sort_values df key;
              df = add_basic_features np df;
              df = add_temporal_features df
          in (case add_rolling_features np self df of
                Inl e \<Rightarrow> Inl e
              | Inr df \<Rightarrow>
                  let df = add_light_features np df;
                      df = add_lag_features df default_lags
                  in Inr (case target_col of
                            None \<Rightarrow> df
                          | Some t \<Rightarrow> if t \<noteq> [] then create_target np df t else df)))"

text \<open>
  \<open>create_features\<close>. Its one effect is the record it writes to the module's logger, so the
  logger is passed in and returned; \<open>self\<close> and the caller's frame are only read (the
  sorted frame is a copy).
\<close>

definition create_features ::
  "numpy \<Rightarrow> FeatureEngineer \<Rightarrow> cell frame \<Rightarrow> string option \<Rightarrow> logger
     \<Rightarrow> (error + cell frame) \<times> logger" where
  "create_features np self df target_col lg =
     (if empty_frame df then (Inr df, lg)
      else case engineer np self df target_col of
             Inl e \<Rightarrow> (Inl e, lg)
           | Inr df \<Rightarrow>
               let initial_len = nrows df;
                   df = dropna df
               in (Inr df,
                   log_to lg INFO (''Removed '' @ str_nat (initial_len - nrows df)
                                   @ '' rows with NaN values'')))"

definition exclude_cols :: "string list" where
  "exclude_cols =
     [''id'', ''device_id'', ''timestamp'', ''created_at'', ''gps_latitude'',
      ''gps_longitude'', ''gps_valid'', ''lights_data'', ''target_failure'',
      ''target_anomaly'', ''time_string'', ''received_at'']"

definition startswith :: "string \<Rightarrow> string \<Rightarrow> bool" where
  "startswith s p = (take (length p) s = p)"

definition get_feature_columns :: "cell frame \<Rightarrow> bool \<Rightarrow> string list" where
  "get_feature_columns df exclude_targets =
     (let feature_cols = filter (\<lambda>col. col \<notin> set exclude_cols) (columns df)
      in if exclude_targets then filter (\<lambda>col. \<not> startswith col ''target_'') feature_cols
         else feature_cols)"


text \<open>
  The names of the columns that the difference and the lag steps add: for each of the three
  columns the row-to-row difference and percent change of \<open>_add_rolling_features\<close>, and
  the lags 1, 3 and 6 of \<open>_add_lag_features\<close>.
\<close>

definition lag_diff_cols :: "string list" where
  "lag_diff_cols =
     concat (map (\<lambda>c. [c @ ''_diff'', c @ ''_pct_change'', c @ ''_lag_1'', c @ ''_lag_3'',
                         c @ ''_lag_6'']) numeric_cols)"

subsection \<open>\<open>create_features\<close> on objects\<close>

text \<open>
  The same method with the objects it touches made explicit, to see what a call can change
  and what its result can depend on. A heap holds the frames (an address is a position in
  the list), the engineers, the list object that is the default of the parameter \<open>lags\<close> of
  \<open>_add_lag_features\<close> (one object for all calls, as every Python default), and the
  records of the module's logger.
\<close>

record heap =
  frames :: "cell frame list"
  engineers :: "FeatureEngineer list"
  lags_default :: "nat list"
  heap_log :: logger

text \<open>A new frame object, and an assignment to columns of an existing one.\<close>

definition alloc :: "cell frame \<Rightarrow> heap \<Rightarrow> nat \<times> heap" where
  "alloc f h = (length (frames h), h\<lparr>frames := frames h @ [f]\<rparr>)"

definition in_place :: "(cell frame \<Rightarrow> cell frame) \<Rightarrow> nat \<Rightarrow> heap \<Rightarrow> heap" where
  "in_place g r h =
     (if r < length (frames h) then h\<lparr>frames := (frames h)[r := g (frames h ! r)]\<rparr> else h)"

definition in_place_try ::
  "(cell frame \<Rightarrow> error + cell frame) \<Rightarrow> nat \<Rightarrow> heap \<Rightarrow> error + heap" where
  "in_place_try g r h =
     (if r < length (frames h) then
        (case g (frames h ! r) of
           Inl e \<Rightarrow> Inl e
         | Inr f \<Rightarrow> Inr (h\<lparr>frames := (frames h)[r := f]\<rparr>))
      else Inr h)"

text \<open>
  \<open>create_features(self, df, target_col)\<close> with \<open>self\<close> and \<open>df\<close> as addresses. On an empty
  frame it returns the very object it was given. \<open>df.sort_values('timestamp').copy()\<close>
  followed by \<open>df.reset_index(drop=True)\<close> binds \<open>df\<close> to a new frame; the two frames
  made on the way are never referred to again, so one allocation stands for the three.
  Each \<open>_add_\<close> method and \<open>_create_target\<close> assign columns to the frame they are given
  and return that same frame, so \<open>df\<close> keeps its address and the object is updated in
  place. \<open>_add_rolling_features\<close> can raise only at the first column it finds, in the call
  of \<open>rolling\<close>, before it has assigned any column (the window is the same for all
  columns), so on that error the object is as it was. \<open>_add_lag_features\<close> is called
  without \<open>lags\<close> and reads the default list object. \<open>df.dropna()\<close> makes the frame that
  is returned. An address outside the heap cannot arise in Python; the model answers it
  with an error.
\<close>

definition create_features_ref ::
  "numpy \<Rightarrow> nat \<Rightarrow> nat \<Rightarrow> string option \<Rightarrow> heap \<Rightarrow> (error + nat) \<times> heap" where
  "create_features_ref np self df target_col h =
     (if \<not> (self < length (engineers h) \<and> df < length (frames h)) then
        (Inl (OtherError ''no such object''), h)
      else if empty_frame (frames h ! df) then (Inr df, h)
      else
        (case map_of (cols (frames h ! df)) ''timestamp'' of
           None \<Rightarrow> (Inl (KeyError ''timestamp''), h)
         | Some key \<Rightarrow>
             (case alloc (sort_values (frames h ! df) key) h of
                (df, h) \<Rightarrow>
                  let h = in_place (add_basic_features np) df h;
                      h = in_place add_temporal_features df h
                  in (case in_place_try (add_rolling_features np (engineers h ! self)) df h of
                        Inl e \<Rightarrow> (Inl e, h)
                      | Inr h \<Rightarrow>
                          let h = in_place (add_light_features np) df h;
                              h = in_place (\<lambda>f. add_lag_features f (lags_default h)) df h;
                              h = (case target_col of
                                     None \<Rightarrow> h
                                   | Some t \<Rightarrow>
                                       if t \<noteq> [] then in_place (\<lambda>f. create_target np f t) df h
                                       else h);
                              initial_len = nrows (frames h ! df)
                          in (case alloc (dropna (frames h ! df)) h of
                                (out, h) \<Rightarrow>
                                  (Inr out,
                                   h\<lparr>heap_log := log_to (heap_log h) INFO
                                        (''Removed ''
                                         @ str_nat (initial_len - nrows (frames h ! out))
                                         @ '' rows with NaN values'')\<rparr>))))))"

text \<open>What the caller gets: the frame at the returned address, or the exception.\<close>

definition returned_frame :: "(error + nat) \<times> heap \<Rightarrow> error + cell frame" where
  "returned_frame r = (case r of (Inl e, h) \<Rightarrow> Inl e | (Inr a, h) \<Rightarrow> Inr (frames h ! a))"

section \<open>MLInference\<close>

subsection \<open>The pandas operations of the inference path\<close>

text \<open>\<open>pd.DataFrame([sensor_data])\<close>: one row, the keys of the dictionary as columns.\<close>

definition DataFrame_of_dict :: "(string \<times> cell) list \<Rightarrow> cell frame" where
  "DataFrame_of_dict d = \<lparr>nrows = 1, cols = map (\<lambda>(k, v). (k, [v])) d\<rparr>"

text \<open>\<open>df.tail(n)\<close> and \<open>df.iloc[-1:]\<close>.\<close>

definition tail :: "nat \<Rightarrow> cell frame \<Rightarrow> cell frame" where
  "tail n df = take_rows df [nrows df - n..<nrows df]"

definition iloc_last :: "cell frame \<Rightarrow> cell frame" where
  "iloc_last df = tail 1 df"

text \<open>
  \<open>pd.concat([a, b], ignore_index=True)\<close>: the rows of \<open>a\<close>, then those of \<open>b\<close>; the
  columns of \<open>a\<close>, then the new ones of \<open>b\<close>; a column that a frame lacks is missing in
  its rows.
\<close>

definition col_or_null :: "cell frame \<Rightarrow> string \<Rightarrow> series" where
  "col_or_null df name =
     (case map_of (cols df) name of Some xs \<Rightarrow> xs | None \<Rightarrow> replicate (nrows df) Null)"

definition pd_concat :: "cell frame \<Rightarrow> cell frame \<Rightarrow> cell frame" where
  "pd_concat a b =
     \<lparr>nrows = nrows a + nrows b,
      cols = map (\<lambda>name. (name, col_or_null a name @ col_or_null b name))
               (columns a @ filter (\<lambda>c. c \<notin> set (columns a)) (columns b))\<rparr>"

text \<open>
  \<open>df[names]\<close> with a list of names: every name must be a column, or pandas raises
  \<open>KeyError\<close> (its message, which lists the missing labels, is shortened to the first
  one); \<open>df[None]\<close> raises \<open>KeyError\<close> too.
\<close>

definition getitem_cols :: "cell frame \<Rightarrow> string list option \<Rightarrow> error + cell frame" where
  "getitem_cols df names =
     (case names of
        None \<Rightarrow> Inl (KeyError ''None'')
      | Some ns \<Rightarrow>
          (case filter (\<lambda>c. c \<notin> set (columns df)) ns of
             [] \<Rightarrow> Inr \<lparr>nrows = nrows df, cols = map (\<lambda>c. (c, col_of df c)) ns\<rparr>
           | c # _ \<Rightarrow> Inl (KeyError (c @ '' not in index''))))"

text \<open>\<open>df.values\<close>: the rows, each as the list of its cells in column order.\<close>

definition frame_values :: "cell frame \<Rightarrow> cell list list" where
  "frame_values df = map (\<lambda>i. map (\<lambda>(name, xs). cell_at xs i) (cols df)) [0..<nrows df]"

text \<open>Line 75 and line 108: \<open>df[features].fillna(0).iloc[-1:].values\<close>.\<close>

definition extract_features :: "cell frame \<Rightarrow> string list option \<Rightarrow> error + cell list list" where
  "extract_features df features =
     (case getitem_cols df features of
        Inl e \<Rightarrow> Inl e
      | Inr sel \<Rightarrow> Inr (frame_values (iloc_last (fillna0 sel))))"

subsection \<open>The fitted models\<close>

text \<open>
  The scikit-learn estimators are outside the repository: a fitted model is the functions
  the pipeline calls on it, each of which may raise.
\<close>

record classifier =
  clf_predict :: "cell list list \<Rightarrow> error + int list"
  clf_predict_proba :: "cell list list \<Rightarrow> error + real list list"

record detector =
  det_predict :: "cell list list \<Rightarrow> error + int list"
  det_score_samples :: "cell list list \<Rightarrow> error + real list"

text \<open>
  The state of an \<open>MLInference\<close> after \<open>__init__\<close>: a model that was not found is
  \<open>None\<close>, and so is a feature list whose file was not found.
\<close>

record MLInference =
  feature_engineer :: FeatureEngineer
  failure_model :: "classifier option"
  anomaly_model :: "detector option"
  failure_features :: "string list option"
  anomaly_features :: "string list option"

text \<open>The dictionaries that the two predictions return, and the one of \<open>predict\<close>.\<close>

datatype entry =
    ErrorEntry string
  | FailureEntry int real real string
  | AnomalyEntry bool real string

record predictions =
  failure :: entry
  anomaly :: entry

subsection \<open>The predictions\<close>

text \<open>Lines 65 to 72 (and 98 to 105): the frame of the reading and its context, engineered.\<close>

definition context_features ::
  "numpy \<Rightarrow> MLInference \<Rightarrow> (string \<times> cell) list \<Rightarrow> cell frame option \<Rightarrow> logger
     \<Rightarrow> (error + cell frame) \<times> logger" where
  "context_features np self sensor_data historical_data lg =
     (let df = DataFrame_of_dict sensor_data;
          df = (case historical_data of
                  None \<Rightarrow> df
                | Some h \<Rightarrow> if \<not> empty_frame h then pd_concat (tail 10 h) df else df)
      in create_features np (feature_engineer self) df None lg)"

text \<open>\<open>xs[0]\<close> raises \<open>IndexError\<close> on an empty sequence.\<close>

definition first_item :: "'a list \<Rightarrow> error + 'a" where
  "first_item xs =
     (case xs of [] \<Rightarrow> Inl (IndexError ''index 0 is out of bounds'') | x # _ \<Rightarrow> Inr x)"

text \<open>Lines 75 to 86, after the features are engineered; \<open>now\<close> is the clock reading.\<close>

definition failure_of_frame ::
  "MLInference \<Rightarrow> classifier \<Rightarrow> cell frame \<Rightarrow> string \<Rightarrow> error + entry" where
  "failure_of_frame self model df now =
     (case extract_features df (failure_features self) of
        Inl e \<Rightarrow> Inl e
      | Inr X \<Rightarrow>
          (case clf_predict model X of
             Inl e \<Rightarrow> Inl e
           | Inr ps \<Rightarrow>
               (case first_item ps of
                  Inl e \<Rightarrow> Inl e
                | Inr prediction \<Rightarrow>
                    (case clf_predict_proba model X of
                       Inl e \<Rightarrow> Inl e
                     | Inr pps \<Rightarrow>
                         (case first_item pps of
                            Inl e \<Rightarrow> Inl e
                          | Inr probability \<Rightarrow>
                              (case probability of
                                 [] \<Rightarrow> Inl (ValueError ''max() arg is an empty sequence'')
                               | p # ps' \<Rightarrow>
                                   Inr (FailureEntry prediction (fold max ps' p)
                                          (if 1 < length probability then probability ! 1 else 0)
                                          now)))))))"

text \<open>
  The \<open>try\<close> block of \<open>predict_failure\<close>, and the method: the guard on the model, and
  the handler that turns every exception of the block into an error entry. The result is
  a sum so that an exception that left the method would show as \<open>Inl\<close>.
\<close>

definition predict_failure_try ::
  "numpy \<Rightarrow> MLInference \<Rightarrow> classifier \<Rightarrow> (string \<times> cell) list \<Rightarrow> cell frame option \<Rightarrow> string
     \<Rightarrow> logger \<Rightarrow> (error + entry) \<times> logger" where
  "predict_failure_try np self model sensor_data historical_data now lg =
     (case context_features np self sensor_data historical_data lg of
        (Inl e, lg') \<Rightarrow> (Inl e, lg')
      | (Inr df, lg') \<Rightarrow> (failure_of_frame self model df now, lg'))"

definition predict_failure ::
  "numpy \<Rightarrow> MLInference \<Rightarrow> (string \<times> cell) list \<Rightarrow> cell frame option \<Rightarrow> string
     \<Rightarrow> logger \<Rightarrow> (error + entry) \<times> logger" where
  "predict_failure np self sensor_data historical_data now lg =
     (case failure_model self of
        None \<Rightarrow> (Inr (ErrorEntry ''Model not loaded''), lg)
      | Some model \<Rightarrow>
          (case predict_failure_try np self model sensor_data historical_data now lg of
             (Inr r, lg') \<Rightarrow> (Inr r, lg')
           | (Inl e, lg') \<Rightarrow>
               (Inr (ErrorEntry (error_str e)),
                log_to lg' ERROR (''Error in failure prediction: '' @ error_str e))))"

definition anomaly_of_frame ::
  "MLInference \<Rightarrow> detector \<Rightarrow> cell frame \<Rightarrow> string \<Rightarrow> error + entry" where
  "anomaly_of_frame self model df now =
     (case extract_features df (anomaly_features self) of
        Inl e \<Rightarrow> Inl e
      | Inr X \<Rightarrow>
          (case det_predict model X of
             Inl e \<Rightarrow> Inl e
           | Inr ps \<Rightarrow>
               (case first_item ps of
                  Inl e \<Rightarrow> Inl e
                | Inr prediction \<Rightarrow>
                    (case det_score_samples model X of
                       Inl e \<Rightarrow> Inl e
                     | Inr ss \<Rightarrow>
                         (case first_item ss of
                            Inl e \<Rightarrow> Inl e
                          | Inr score \<Rightarrow> Inr (AnomalyEntry (prediction = - 1) score now))))))"

definition detect_anomaly_try ::
  "numpy \<Rightarrow> MLInference \<Rightarrow> detector \<Rightarrow> (string \<times> cell) list \<Rightarrow> cell frame option \<Rightarrow> string
     \<Rightarrow> logger \<Rightarrow> (error + entry) \<times> logger" where
  "detect_anomaly_try np self model sensor_data historical_data now lg =
     (case context_features np self sensor_data historical_data lg of
        (Inl e, lg') \<Rightarrow> (Inl e, lg')
      | (Inr df, lg') \<Rightarrow> (anomaly_of_frame self model df now, lg'))"

definition detect_anomaly ::
  "numpy \<Rightarrow> MLInference \<Rightarrow> (string \<times> cell) list \<Rightarrow> cell frame option \<Rightarrow> string
     \<Rightarrow> logger \<Rightarrow> (error + entry) \<times> logger" where
  "detect_anomaly np self sensor_data historical_data now lg =
     (case anomaly_model self of
        None \<Rightarrow> (Inr (ErrorEntry ''Model not loaded''), lg)
      | Some model \<Rightarrow>
          (case detect_anomaly_try np self model sensor_data historical_data now lg of
             (Inr r, lg') \<Rightarrow> (Inr r, lg')
           | (Inl e, lg') \<Rightarrow>
               (Inr (ErrorEntry (error_str e)),
                log_to lg' ERROR (''Error in anomaly detection: '' @ error_str e))))"

text \<open>
  \<open>predict\<close>: the failure entry is computed first, then the anomaly entry, on the logger
  that the first call left. \<open>now1\<close> and \<open>now2\<close> are the two clock readings.
\<close>

definition predict ::
  "numpy \<Rightarrow> MLInference \<Rightarrow> (string \<times> cell) list \<Rightarrow> cell frame option \<Rightarrow> string \<Rightarrow> string
     \<Rightarrow> logger \<Rightarrow> (error + predictions) \<times> logger" where
  "predict np self sensor_data historical_data now1 now2 lg =
     (case predict_failure np self sensor_data historical_data now1 lg of
        (Inl e, lg1) \<Rightarrow> (Inl e, lg1)
      | (Inr f, lg1) \<Rightarrow>
          (case detect_anomaly np self sensor_data historical_data now2 lg1 of
             (Inl e, lg2) \<Rightarrow> (Inl e, lg2)
           | (Inr a, lg2) \<Rightarrow> (Inr \<lparr>failure = f, anomaly = a\<rparr>, lg2)))"


section \<open>ModelTrainer\<close>

text \<open>
  What the training run calls outside the repository, each as the function of its
  arguments that may raise: \<open>pd.read_csv\<close>, \<open>train_test_split\<close> (with the fixed seed
  and the stratification), \<open>RandomForestClassifier(...).fit\<close>, \<open>accuracy_score\<close>,
  \<open>classification_report\<close>, \<open>IsolationForest(...).fit\<close>, and the format \<open>:.4f\<close>.
\<close>

record split =
  X_train :: "cell list list"
  X_test :: "cell list list"
  y_train :: "cell list"
  y_test :: "cell list"

record sklearn =
  read_csv :: "string \<Rightarrow> error + cell frame"
  train_test_split :: "cell list list \<Rightarrow> cell list \<Rightarrow> error + split"
  forest_fit :: "cell list list \<Rightarrow> cell list \<Rightarrow> error + classifier"
  accuracy_score :: "cell list \<Rightarrow> int list \<Rightarrow> error + real"
  classification_report :: "cell list \<Rightarrow> int list \<Rightarrow> error + string"
  isolation_fit :: "cell list list \<Rightarrow> error + detector"
  format_4f :: "real \<Rightarrow> string"

text \<open>What \<open>joblib.dump\<close> writes, and the files of the model directory.\<close>

datatype artifact =
    ClassifierFile classifier
  | DetectorFile detector
  | FeaturesFile "string list"

record world =
  files :: "string \<rightharpoonup> artifact"
  logged :: logger

definition info :: "string \<Rightarrow> world \<Rightarrow> world" where
  "info msg w = w\<lparr>logged := log_to (logged w) INFO msg\<rparr>"

definition joblib_dump :: "artifact \<Rightarrow> string \<Rightarrow> world \<Rightarrow> world" where
  "joblib_dump obj path w = w\<lparr>files := (files w)(path \<mapsto> obj)\<rparr>"

record ModelTrainer =
  model_dir :: string
  trainer_feature_engineer :: FeatureEngineer

text \<open>\<open>os.path.join\<close> of a directory and a file name.\<close>

definition path_join :: "string \<Rightarrow> string \<Rightarrow> string" where
  "path_join a b =
     (if b \<noteq> [] \<and> hd b = CHR ''/'' then b
      else if a = [] \<or> last a = CHR ''/'' then a @ b
      else a @ ''/'' @ b)"

text \<open>The dictionaries that the two training methods return.\<close>

record failure_report =
  model_path :: string
  feature_path :: string
  accuracy :: real
  feature_count :: nat
  training_samples :: nat
  test_samples :: nat

record anomaly_report =
  a_model_path :: string
  a_feature_path :: string
  a_feature_count :: nat
  a_training_samples :: nat

text \<open>
  Lines 54 to 56: the substitute label. \<open>df['faulty_lights_count']\<close> raises \<open>KeyError\<close>
  when the column is not there.
\<close>

definition ensure_target :: "cell frame \<Rightarrow> world \<Rightarrow> (error + cell frame) \<times> world" where
  "ensure_target df w =
     (if ''target_failure'' \<notin> set (columns df) then
        let w = w\<lparr>logged := log_to (logged w) WARNING
                    ''No target_failure column found, creating synthetic target''\<rparr>
        in (case map_of (cols df) ''faulty_lights_count'' of
              None \<Rightarrow> (Inl (KeyError ''faulty_lights_count''), w)
            | Some f \<Rightarrow>
                (Inr (set_col df ''target_failure'' (map (\<lambda>c. astype_int (fl_gt c (Num 0))) f)), w))
      else (Inr df, w))"

text \<open>Lines 58 to 102: from the prepared frame to the saved artifacts.\<close>

definition fit_and_save_failure ::
  "sklearn \<Rightarrow> ModelTrainer \<Rightarrow> string \<Rightarrow> cell frame \<Rightarrow> string list \<Rightarrow> world
     \<Rightarrow> (error + failure_report) \<times> world" where
  "fit_and_save_failure sk self model_name df feature_cols w =
     (case getitem_cols df (Some feature_cols) of
        Inl e \<Rightarrow> (Inl e, w)
      | Inr sel \<Rightarrow>
          let X = frame_values (fillna0 sel);
              y = col_of df ''target_failure''
          in (case train_test_split sk X y of
                Inl e \<Rightarrow> (Inl e, w)
              | Inr sp \<Rightarrow>
                  let w = info ''Training Random Forest model...'' w
                  in (case forest_fit sk (X_train sp) (y_train sp) of
                        Inl e \<Rightarrow> (Inl e, w)
                      | Inr model \<Rightarrow>
                          (case clf_predict model (X_test sp) of
                             Inl e \<Rightarrow> (Inl e, w)
                           | Inr y_pred \<Rightarrow>
                               (case accuracy_score sk (y_test sp) y_pred of
                                  Inl e \<Rightarrow> (Inl e, w)
                                | Inr acc \<Rightarrow>
                                    let w = info (''Model accuracy: '' @ format_4f sk acc) w;
                                        w = info (CHR 0x0A # ''Classification Report:'') w
                                    in (case classification_report sk (y_test sp) y_pred of
                                          Inl e \<Rightarrow> (Inl e, w)
                                        | Inr rep \<Rightarrow>
                                            let w = info rep w;
                                                mpath = path_join (model_dir self) (model_name @ ''.pkl'');
                                                w = joblib_dump (ClassifierFile model) mpath w;
                                                fpath = path_join (model_dir self)
                                                          (model_name @ ''_features.pkl'');
                                                w = joblib_dump (FeaturesFile feature_cols) fpath w;
                                                w = info (''Model saved to '' @ mpath) w
                                            in (Inr \<lparr>model_path = mpath, feature_path = fpath,
                                                     accuracy = acc,
                                                     feature_count = length feature_cols,
                                                     training_samples = length (X_train sp),
                                                     test_samples = length (X_test sp)\<rparr>, w)))))))"

definition train_failure_prediction_model ::
  "numpy \<Rightarrow> sklearn \<Rightarrow> ModelTrainer \<Rightarrow> string \<Rightarrow> string \<Rightarrow> world
     \<Rightarrow> (error + failure_report) \<times> world" where
  "train_failure_prediction_model np sk self data_path model_name w =
     (let w = info (''Loading data from '' @ data_path) w
      in case read_csv sk data_path of
           Inl e \<Rightarrow> (Inl e, w)
         | Inr df \<Rightarrow>
             if empty_frame df then (Inl (ValueError ''Empty dataset provided''), w)
             else
               let w = info ''Engineering features...'' w
               in (case create_features np (trainer_feature_engineer self) df (Some ''failure'')
                          (logged w) of
                     (Inl e, lg) \<Rightarrow> (Inl e, w\<lparr>logged := lg\<rparr>)
                   | (Inr df, lg) \<Rightarrow>
                       let w = w\<lparr>logged := lg\<rparr>;
                           feature_cols = get_feature_columns df True
                       in (case ensure_target df w of
                             (Inl e, w) \<Rightarrow> (Inl e, w)
                           | (Inr df, w) \<Rightarrow>
                               fit_and_save_failure sk self model_name df feature_cols w)))"

definition train_anomaly_detection_model ::
  "numpy \<Rightarrow> sklearn \<Rightarrow> ModelTrainer \<Rightarrow> string \<Rightarrow> string \<Rightarrow> world
     \<Rightarrow> (error + anomaly_report) \<times> world" where
  "train_anomaly_detection_model np sk self data_path model_name w =
     (let w = info (''Loading data from '' @ data_path) w
      in case read_csv sk data_path of
           Inl e \<Rightarrow> (Inl e, w)
         | Inr df \<Rightarrow>
             if empty_frame df then (Inl (ValueError ''Empty dataset provided''), w)
             else
               let w = info ''Engineering features...'' w
               in (case create_features np (trainer_feature_engineer self) df None (logged w) of
                     (Inl e, lg) \<Rightarrow> (Inl e, w\<lparr>logged := lg\<rparr>)
                   | (Inr df, lg) \<Rightarrow>
                       let w = w\<lparr>logged := lg\<rparr>;
                           feature_cols = get_feature_columns df True
                       in (case getitem_cols df (Some feature_cols) of
                             Inl e \<Rightarrow> (Inl e, w)
                           | Inr sel \<Rightarrow>
                               let X = frame_values (fillna0 sel);
                                   w = info ''Training Isolation Forest model...'' w
                               in (case isolation_fit sk X of
                                     Inl e \<Rightarrow> (Inl e, w)
                                   | Inr model \<Rightarrow>
                                       let mpath = path_join (model_dir self) (model_name @ ''.pkl'');
                                           w = joblib_dump (DetectorFile model) mpath w;
                                           fpath = path_join (model_dir self)
                                                     (model_name @ ''_features.pkl'');
                                           w = joblib_dump (FeaturesFile feature_cols) fpath w;
                                           w = info (''Model saved to '' @ mpath) w
                                       in (Inr \<lparr>a_model_path = mpath, a_feature_path = fpath,
                                                a_feature_count = length feature_cols,
                                                a_training_samples = length X\<rparr>, w)))))"

section \<open>DataCollector\<close>

text \<open>
  A cell of a frame read from the database: missing, a number (also a time, in seconds
  since the epoch, and a boolean), or a text.
\<close>

datatype dcell = DNull | DNum real | DText string

text \<open>
  One entry of the JSON array in \<open>lights_data\<close>, as the loop reads it: \<open>light.get('id', 0)\<close>
  (\<open>None\<close> here when the key is absent), the two values that are copied, and the
  truth values of the three flags. \<open>json.loads\<close> is taken as given, on texts that hold an
  array of such objects or do not parse (\<open>Inl\<close>: the message of the \<open>JSONDecodeError\<close>).
\<close>

record light =
  light_id :: "int option"
  ldr_value :: dcell
  ldr_raw :: dcell
  ir_sensor :: bool
  light_state :: bool
  fault_detected :: bool

definition light_fields :: "string list" where
  "light_fields = [''ldr'', ''ldr_raw'', ''ir'', ''state'', ''fault'']"

definition light_col :: "nat \<Rightarrow> string \<Rightarrow> string" where
  "light_col i field = ''light_'' @ str_nat i @ ''_'' @ field"

text \<open>\<open>df.at[idx, name] = v\<close> on a column that is there.\<close>

definition set_at :: "dcell frame \<Rightarrow> nat \<Rightarrow> string \<Rightarrow> dcell \<Rightarrow> dcell frame" where
  "set_at df idx name v = set_col df name ((col_of df name)[idx := v])"

definition flag :: "bool \<Rightarrow> dcell" where
  "flag b = (if b then DNum 1 else DNum 0)"

definition store_light :: "nat \<Rightarrow> dcell frame \<Rightarrow> light \<Rightarrow> dcell frame" where
  "store_light idx df l =
     (let lid = (case light_id l of None \<Rightarrow> 0 | Some i \<Rightarrow> i)
      in if 1 \<le> lid \<and> lid \<le> 4 then
           let df = set_at df idx (light_col (nat lid) ''ldr'') (ldr_value l);
               df = set_at df idx (light_col (nat lid) ''ldr_raw'') (ldr_raw l);
               df = set_at df idx (light_col (nat lid) ''ir'') (flag (ir_sensor l));
               df = set_at df idx (light_col (nat lid) ''state'') (flag (light_state l));
               df = set_at df idx (light_col (nat lid) ''fault'') (flag (fault_detected l))
           in df
         else df)"

text \<open>
  The body of the loop over the rows. A text that does not parse is logged and skipped;
  \<open>json.loads\<close> of a value that is no text raises \<open>TypeError\<close>, which the handler does
  not catch.
\<close>

definition parse_row ::
  "(string \<Rightarrow> string + light list) \<Rightarrow> dcell frame \<Rightarrow> logger \<Rightarrow> nat
     \<Rightarrow> (error + dcell frame) \<times> logger" where
  "parse_row json_loads df lg idx =
     (case (col_of df ''lights_data'') ! idx of
        DNull \<Rightarrow> (Inr df, lg)
      | DNum x \<Rightarrow> (Inl (TypeError ''the JSON object must be str, bytes or bytearray''), lg)
      | DText t \<Rightarrow>
          (case json_loads t of
             Inl msg \<Rightarrow>
               (Inr df, log_to lg WARNING
                          (''Failed to parse lights_data at index '' @ str_nat idx @ '': '' @ msg))
           | Inr lights \<Rightarrow> (Inr (fold (\<lambda>l df. store_light idx df l) lights df), lg)))"

fun parse_rows ::
  "(string \<Rightarrow> string + light list) \<Rightarrow> dcell frame \<Rightarrow> logger \<Rightarrow> nat list
     \<Rightarrow> (error + dcell frame) \<times> logger" where
  "parse_rows json_loads df lg [] = (Inr df, lg)"
| "parse_rows json_loads df lg (idx # rest) =
     (case parse_row json_loads df lg idx of
        (Inl e, lg') \<Rightarrow> (Inl e, lg')
      | (Inr df', lg') \<Rightarrow> parse_rows json_loads df' lg' rest)"

definition parse_lights_data ::
  "(string \<Rightarrow> string + light list) \<Rightarrow> dcell frame \<Rightarrow> logger
     \<Rightarrow> (error + dcell frame) \<times> logger" where
  "parse_lights_data json_loads df lg =
     (let df = fold (\<lambda>i df. fold (\<lambda>field df. set_col df (light_col (Suc i) field)
                                                 (replicate (nrows df) DNull))
                               light_fields df)
                  [0..<4] df
      in parse_rows json_loads df lg [0..<nrows df])"

text \<open>
  \<open>collect_device_data\<close>. \<open>read_sql\<close> is the query on the persistence layer, for a
  device and a time range; \<open>utcnow\<close> the clock reading that the missing bounds default
  from (30 days back, and now).
\<close>

definition collect_device_data ::
  "(string \<Rightarrow> real \<Rightarrow> real \<Rightarrow> dcell frame) \<Rightarrow> (string \<Rightarrow> string + light list) \<Rightarrow> real
     \<Rightarrow> string \<Rightarrow> real option \<Rightarrow> real option \<Rightarrow> int \<Rightarrow> logger
     \<Rightarrow> (error + dcell frame) \<times> logger" where
  "collect_device_data read_sql json_loads utcnow device_id start_date end_date min_readings lg =
     (let start_date = (case start_date of None \<Rightarrow> utcnow - 30 * 86400 | Some d \<Rightarrow> d);
          end_date = (case end_date of None \<Rightarrow> utcnow | Some d \<Rightarrow> d);
          df = read_sql device_id start_date end_date
      in if int (nrows df) < min_readings then
           (Inr DataFrame,
            log_to lg WARNING
              (''Only '' @ str_nat (nrows df) @ '' readings found for device '' @ device_id
               @ '', minimum '' @ (if min_readings < 0 then ''-'' else [])
               @ str_nat (nat \<bar>min_readings\<bar>) @ '' required''))
         else
           (case (if ''lights_data'' \<in> set (columns df)
                     \<and> \<not> list_all (\<lambda>c. c = DNull) (col_of df ''lights_data'')
                  then parse_lights_data json_loads df lg
                  else (Inr df, lg)) of
              (Inl e, lg) \<Rightarrow> (Inl e, lg)
            | (Inr df, lg) \<Rightarrow>
                (Inr df,
                 log_to lg INFO (''Collected '' @ str_nat (nrows df) @ '' readings for device ''
                                 @ device_id))))"

section \<open>Well-formed frames\<close>

text \<open>Every column of a frame has one cell for each row.\<close>

definition wf_frame :: "'c frame \<Rightarrow> bool" where
  "wf_frame df = list_all (\<lambda>(name, xs). length xs = nrows df) (cols df)"

section \<open>Concrete inputs\<close>

text \<open>
  Eight hourly readings from the epoch on, ambient light 10 to 80; the position was
  not valid at the last reading, so its latitude is missing.
\<close>

definition eight_readings :: "cell frame" where
  "eight_readings =
     \<lparr>nrows = 8,
      cols = [(''timestamp'', [Num 0, Num 3600, Num 7200, Num 10800, Num 14400, Num 18000,
                               Num 21600, Num 25200]),
              (''ambient_light'', [Num 10, Num 20, Num 30, Num 40, Num 50, Num 60, Num 70, Num 80]),
              (''gps_latitude'', [Num 1, Num 1, Num 1, Num 1, Num 1, Num 1, Num 1, Null])]\<rparr>"

text \<open>
  Eight hourly readings with a value in every cell: the light rises from 10 to 80 and no
  lamp is faulty at any reading.
\<close>

definition healthy_readings :: "cell frame" where
  "healthy_readings =
     \<lparr>nrows = 8,
      cols = [(''timestamp'', [Num 0, Num 3600, Num 7200, Num 10800, Num 14400, Num 18000,
                               Num 21600, Num 25200]),
              (''ambient_light'', [Num 10, Num 20, Num 30, Num 40, Num 50, Num 60, Num 70, Num 80]),
              (''faulty_lights_count'', [Num 0, Num 0, Num 0, Num 0, Num 0, Num 0, Num 0, Num 0])]\<rparr>"

text \<open>The lag and the difference columns of the count of faulty lamps.\<close>

definition faulty_lag_diff_cols :: "string list" where
  "faulty_lag_diff_cols =
     [''faulty_lights_count_lag_1'', ''faulty_lights_count_lag_3'', ''faulty_lights_count_lag_6'',
      ''faulty_lights_count_diff'', ''faulty_lights_count_pct_change'']"

text \<open>Fifty rows that a query returns, none with light data.\<close>

definition fifty_rows :: "dcell frame" where
  "fifty_rows =
     \<lparr>nrows = 50,
      cols = [(''id'', map (\<lambda>i. DNum (real i)) [0..<50]),
              (''lights_data'', replicate 50 DNull)]\<rparr>"

text \<open>
  The libraries of a training run whose data file has a header and no row: every other
  call fails, so that a run which got past the check on the data would show.
\<close>

definition header_only :: "cell frame" where
  "header_only = \<lparr>nrows = 0, cols = [(''timestamp'', []), (''faulty_lights_count'', [])]\<rparr>"

definition sklearn_of :: "cell frame \<Rightarrow> sklearn" where
  "sklearn_of df =
     \<lparr>read_csv = (\<lambda>path. Inr df),
      train_test_split = (\<lambda>X y. Inl (ValueError ''no split'')),
      forest_fit = (\<lambda>X y. Inl (ValueError ''no fit'')),
      accuracy_score = (\<lambda>y p. Inl (ValueError ''no score'')),
      classification_report = (\<lambda>y p. Inl (ValueError ''no report'')),
      isolation_fit = (\<lambda>X. Inl (ValueError ''no fit'')),
      format_4f = (\<lambda>x. '''')\<rparr>"

definition trainer0 :: ModelTrainer where
  "trainer0 = \<lparr>model_dir = ''models'', trainer_feature_engineer = FeatureEngineer_default\<rparr>"

definition world0 :: world where
  "world0 = \<lparr>files = Map.empty, logged = []\<rparr>"

text \<open>Seven hourly readings, one faulty light at the fourth.\<close>

definition seven_readings :: "cell frame" where
  "seven_readings =
     \<lparr>nrows = 7,
      cols = [(''timestamp'', [Num 0, Num 3600, Num 7200, Num 10800, Num 14400, Num 18000,
                               Num 21600]),
              (''faulty_lights_count'', [Num 0, Num 0, Num 0, Num 1, Num 0, Num 0, Num 0])]\<rparr>"

text \<open>Four hourly readings, and the same with the first ambient light missing.\<close>

definition four_readings :: "cell frame" where
  "four_readings =
     \<lparr>nrows = 4,
      cols = [(''timestamp'', [Num 0, Num 3600, Num 7200, Num 10800]),
              (''ambient_light'', [Num 10, Num 20, Num 30, Num 40])]\<rparr>"

definition four_readings_gap :: "cell frame" where
  "four_readings_gap =
     \<lparr>nrows = 4,
      cols = [(''timestamp'', [Num 0, Num 3600, Num 7200, Num 10800]),
              (''ambient_light'', [Null, Num 20, Num 30, Num 40])]\<rparr>"

definition window3 :: FeatureEngineer where
  "window3 = \<lparr>window_size = 3\<rparr>"

text \<open>The names that the steps after the rolling statistics assign.\<close>

definition later_cols :: "string list" where
  "later_cols =
     [''mean_light_ldr'', ''std_light_ldr'', ''min_light_ldr'', ''max_light_ldr'',
      ''total_faults'', ''fault_rate'', ''total_active'', ''active_rate'',
      ''ambient_light_lag_1'', ''ambient_light_lag_3'', ''ambient_light_lag_6'',
      ''active_lights_count_lag_1'', ''active_lights_count_lag_3'', ''active_lights_count_lag_6'',
      ''faulty_lights_count_lag_1'', ''faulty_lights_count_lag_3'', ''faulty_lights_count_lag_6'',
      ''target_failure'', ''target_anomaly'']"

text \<open>One computed row with the columns a, c and d.\<close>

definition acd_row :: "cell frame" where
  "acd_row = \<lparr>nrows = 1, cols = [(''a'', [Num 1]), (''c'', [Num 3]), (''d'', [Num 4])]\<rparr>"

text \<open>Fitted models that answer every row alike.\<close>

definition constant_classifier :: classifier where
  "constant_classifier =
     \<lparr>clf_predict = (\<lambda>X. Inr (map (\<lambda>row. 0) X)),
      clf_predict_proba = (\<lambda>X. Inr (map (\<lambda>row. [1, 0]) X))\<rparr>"

definition constant_detector :: detector where
  "constant_detector =
     \<lparr>det_predict = (\<lambda>X. Inr (map (\<lambda>row. 1) X)),
      det_score_samples = (\<lambda>X. Inr (map (\<lambda>row. - 1 / 2) X))\<rparr>"

text \<open>Seven hourly readings of history, and the reading of the eighth hour.\<close>

definition history7 :: "cell frame" where
  "history7 =
     \<lparr>nrows = 7,
      cols = [(''timestamp'', [Num 0, Num 3600, Num 7200, Num 10800, Num 14400, Num 18000,
                               Num 21600]),
              (''ambient_light'', [Num 10, Num 20, Num 30, Num 40, Num 50, Num 60, Num 70])]\<rparr>"

definition reading8 :: "(string \<times> cell) list" where
  "reading8 = [(''timestamp'', Num 25200), (''ambient_light'', Num 80)]"

text \<open>An inference service with a loaded detector, and the given classifier and schema.\<close>

definition service :: "classifier option \<Rightarrow> string list \<Rightarrow> MLInference" where
  "service fm schema =
     \<lparr>feature_engineer = FeatureEngineer_default,
      failure_model = fm,
      anomaly_model = Some constant_detector,
      failure_features = Some schema,
      anomaly_features = Some [''ambient_light'', ''ambient_light_lag_1'']\<rparr>"

text \<open>
  Two processes. In the first a trainer's engineer is about to handle the eight readings,
  the only frame there. In the second, an inference service with two engineers has handled
  other frames before and has logged; the same eight readings are its third frame.
\<close>

definition heap_training :: heap where
  "heap_training =
     \<lparr>frames = [eight_readings], engineers = [FeatureEngineer_default],
      lags_default = default_lags, heap_log = []\<rparr>"

definition heap_online :: heap where
  "heap_online =
     \<lparr>frames = [four_readings, history7, eight_readings],
      engineers = [\<lparr>window_size = 10\<rparr>, \<lparr>window_size = 3\<rparr>],
      lags_default = default_lags,
      heap_log = [(INFO, ''Removed 3 rows with NaN values'')]\<rparr>"

section \<open>Frame lemmas\<close>

lemma map_of_set_col:
  "map_of (cols (set_col df n xs)) c = (if c = n then Some xs else map_of (cols df) c)"
  by (simp add: set_col_def update_conv')

lemma nrows_set_col: "nrows (set_col df n xs) = nrows df"
  by (simp add: set_col_def)

lemma columns_set_col: "set (columns (set_col df n xs)) = insert n (set (columns df))"
  by (simp add: set_col_def columns_def dom_update)

lemma in_columns_iff: "c \<in> set (columns df) \<longleftrightarrow> map_of (cols df) c \<noteq> None"
  by (simp add: columns_def map_of_eq_None_iff)

lemma columns_take_rows: "columns (take_rows df idx) = columns df"
  by (simp add: take_rows_def columns_def case_prod_beta)

lemma str_nat_digits:
  "str_nat 1 = ''1''" "str_nat (Suc 0) = ''1''" "str_nat 3 = ''3''" "str_nat 6 = ''6''"
  by (simp_all add: str_nat.simps digit_char_def)

lemma cell_at_series_shift_null: "i < k \<Longrightarrow> cell_at (series_shift k xs) i = Null"
  by (auto simp: cell_at_def series_shift_def nth_append)

lemma map_of_add_lag_col:
  "map_of (cols (add_lag_col default_lags df c)) n =
     (case map_of (cols df) c of
        None \<Rightarrow> map_of (cols df) n
      | Some xs \<Rightarrow>
          if n = c @ ''_lag_6'' then Some (series_shift 6 xs)
          else if n = c @ ''_lag_3'' then Some (series_shift 3 xs)
          else if n = c @ ''_lag_1'' then Some (series_shift 1 xs)
          else map_of (cols df) n)"
  by (simp add: add_lag_col_def default_lags_def map_of_set_col str_nat_digits split: option.splits)

lemma add_lag_features_lag6:
  assumes "c \<in> set numeric_cols" and "map_of (cols df) c = Some xs"
  shows "map_of (cols (add_lag_features df default_lags)) (c @ ''_lag_6'') = Some (series_shift 6 xs)"
proof -
  from assms(1) consider "c = ''ambient_light''" | "c = ''active_lights_count''"
    | "c = ''faulty_lights_count''"
    by (auto simp: numeric_cols_def)
  then show ?thesis
  proof cases
    case 1
    then show ?thesis using assms(2)
      by (simp add: add_lag_features_def numeric_cols_def map_of_add_lag_col split: option.splits)
  next
    case 2
    then show ?thesis using assms(2)
      by (simp add: add_lag_features_def numeric_cols_def map_of_add_lag_col split: option.splits)
  next
    case 3
    then show ?thesis using assms(2)
      by (simp add: add_lag_features_def numeric_cols_def map_of_add_lag_col split: option.splits)
  qed
qed


section \<open>Which columns a step leaves alone\<close>

lemma map_of_take_rows:
  "map_of (cols (take_rows df idx)) c = map_option (\<lambda>xs. map (cell_at xs) idx) (map_of (cols df) c)"
  by (induction "cols df" arbitrary: df) (auto simp: take_rows_def map_of_map split: prod.splits)

lemma map_of_add_basic_features:
  assumes "n \<notin> set [''hour'', ''day_of_week'', ''is_weekend'', ''is_night'',
                       ''ambient_light_squared'', ''ambient_light_log'']"
  shows "map_of (cols (add_basic_features np df)) n = map_of (cols df) n"
  using assms
  by (simp add: add_basic_features_def Let_def map_of_set_col split: option.splits)

lemma map_of_add_temporal_features:
  assumes "n \<notin> set [''timestamp'', ''time_since_start'']"
  shows "map_of (cols (add_temporal_features df)) n = map_of (cols df) n"
  using assms
  by (simp add: add_temporal_features_def Let_def map_of_set_col split: option.splits)

lemma map_of_add_rolling_col:
  assumes "add_rolling_col np w df c = Inr d"
    and "n \<notin> set [c @ ''_rolling_mean'', c @ ''_rolling_std'', c @ ''_rolling_min'',
                    c @ ''_rolling_max'', c @ ''_diff'', c @ ''_pct_change'']"
  shows "map_of (cols d) n = map_of (cols df) n"
  using assms
  by (auto simp: add_rolling_col_def Let_def map_of_set_col split: option.splits if_splits)

lemma map_of_add_rolling_features_numeric:
  assumes "add_rolling_features np self df = Inr d" and "c \<in> set numeric_cols"
  shows "map_of (cols d) c = map_of (cols df) c"
proof -
  from assms(1) obtain d1 d2 where
    1: "add_rolling_col np (window_size self) df ''ambient_light'' = Inr d1" and
    2: "add_rolling_col np (window_size self) d1 ''active_lights_count'' = Inr d2" and
    3: "add_rolling_col np (window_size self) d2 ''faulty_lights_count'' = Inr d"
    by (auto simp: add_rolling_features_def numeric_cols_def split: sum.splits)
  from assms(2) have c: "c = ''ambient_light'' \<or> c = ''active_lights_count'' \<or> c = ''faulty_lights_count''"
    by (auto simp: numeric_cols_def)
  have "map_of (cols d1) c = map_of (cols df) c"
    using c by (intro map_of_add_rolling_col [OF 1]) auto
  moreover have "map_of (cols d2) c = map_of (cols d1) c"
    using c by (intro map_of_add_rolling_col [OF 2]) auto
  moreover have "map_of (cols d) c = map_of (cols d2) c"
    using c by (intro map_of_add_rolling_col [OF 3]) auto
  ultimately show ?thesis by simp
qed

lemma map_of_add_light_features:
  assumes "n \<notin> set [''mean_light_ldr'', ''std_light_ldr'', ''min_light_ldr'', ''max_light_ldr'',
                       ''total_faults'', ''fault_rate'', ''total_active'', ''active_rate'']"
  shows "map_of (cols (add_light_features np df)) n = map_of (cols df) n"
  using assms
  by (simp add: add_light_features_def Let_def map_of_set_col)

lemma map_of_create_target:
  assumes "n \<notin> set [''target_failure'', ''target_anomaly'']"
  shows "map_of (cols (create_target np df t)) n = map_of (cols df) n"
  using assms
  by (simp add: create_target_def Let_def map_of_set_col split: option.splits)

lemma numeric_cols_cases:
  "c \<in> set numeric_cols \<longleftrightarrow>
     c = ''ambient_light'' \<or> c = ''active_lights_count'' \<or> c = ''faulty_lights_count''"
  by (auto simp: numeric_cols_def)

text \<open>A numeric column of the input reaches the lag step as the sorted input column.\<close>

lemma numeric_col_before_lags:
  assumes "c \<in> set numeric_cols"
    and "add_rolling_features np self (add_temporal_features (add_basic_features np df)) = Inr d"
  shows "map_of (cols (add_light_features np d)) c = map_of (cols df) c"
proof -
  have "map_of (cols (add_light_features np d)) c = map_of (cols d) c"
    using assms(1) by (intro map_of_add_light_features) (auto simp: numeric_cols_cases)
  also have "\<dots> = map_of (cols (add_temporal_features (add_basic_features np df))) c"
    by (rule map_of_add_rolling_features_numeric [OF assms(2) assms(1)])
  also have "\<dots> = map_of (cols (add_basic_features np df)) c"
    using assms(1) by (intro map_of_add_temporal_features) (auto simp: numeric_cols_cases)
  also have "\<dots> = map_of (cols df) c"
    using assms(1) by (intro map_of_add_basic_features) (auto simp: numeric_cols_cases)
  finally show ?thesis .
qed

text \<open>The frame before the target step, when \<open>engineer\<close> succeeds.\<close>

lemma engineer_InrE:
  assumes "engineer np self df target_col = Inr d"
  obtains key r where "map_of (cols df) ''timestamp'' = Some key"
    and "add_rolling_features np self
           (add_temporal_features (add_basic_features np (sort_values df key))) = Inr r"
    and "d = (case target_col of None \<Rightarrow> add_lag_features (add_light_features np r) default_lags
              | Some t \<Rightarrow> if t \<noteq> [] then create_target np (add_lag_features (add_light_features np r) default_lags) t
                          else add_lag_features (add_light_features np r) default_lags)"
  using assms
  by (auto simp: engineer_def Let_def split: option.splits sum.splits)

lemma engineered_lag6:
  assumes eng: "engineer np self df target_col = Inr d"
    and c: "c \<in> set numeric_cols" and present: "c \<in> set (columns df)"
  shows "\<exists>xs. map_of (cols d) (c @ ''_lag_6'') = Some (series_shift 6 xs)"
proof -
  from eng obtain key r where key: "map_of (cols df) ''timestamp'' = Some key"
    and r: "add_rolling_features np self
           (add_temporal_features (add_basic_features np (sort_values df key))) = Inr r"
    and d: "d = (case target_col of None \<Rightarrow> add_lag_features (add_light_features np r) default_lags
              | Some t \<Rightarrow> if t \<noteq> [] then create_target np (add_lag_features (add_light_features np r) default_lags) t
                          else add_lag_features (add_light_features np r) default_lags)"
    by (rule engineer_InrE)
  from present obtain xs0 where "map_of (cols df) c = Some xs0"
    by (auto simp: in_columns_iff)
  then obtain xs where "map_of (cols (sort_values df key)) c = Some xs"
    by (simp add: sort_values_def map_of_take_rows)
  then have "map_of (cols (add_light_features np r)) c = Some xs"
    using numeric_col_before_lags [OF c r] by simp
  then have lag: "map_of (cols (add_lag_features (add_light_features np r) default_lags)) (c @ ''_lag_6'')
               = Some (series_shift 6 xs)"
    by (rule add_lag_features_lag6 [OF c])
  have "map_of (cols d) (c @ ''_lag_6'')
      = map_of (cols (add_lag_features (add_light_features np r) default_lags)) (c @ ''_lag_6'')"
    using c unfolding d
    by (auto simp: numeric_cols_cases map_of_create_target split: option.splits)
  with lag show ?thesis by auto
qed

lemma not_row_complete:
  assumes "map_of (cols df) n = Some xs" and "cell_at xs i = Null"
  shows "\<not> row_complete df i"
proof -
  from assms(1) have "(n, xs) \<in> set (cols df)" by (rule map_of_SomeD)
  with assms(2) show ?thesis
    by (auto simp: row_complete_def list_all_iff)
qed

lemma filter_upt_skip:
  assumes "\<And>i. i < k \<Longrightarrow> \<not> P i"
  shows "filter P [0..<n] = filter P [k..<n]"
proof (cases "k \<le> n")
  case True
  then have "[0..<n] = [0..<k] @ [k..<n]"
    by (metis le_add_diff_inverse upt_add_eq_append zero_le)
  moreover have "filter P [0..<k] = []" using assms by (auto simp: filter_empty_conv)
  ultimately show ?thesis by simp
next
  case False
  then have "filter P [0..<n] = []" using assms by (auto simp: filter_empty_conv)
  with False show ?thesis by simp
qed

section \<open>The result of \<open>create_features\<close>\<close>

lemma create_features_fst:
  "fst (create_features np self df target_col lg) =
     (if empty_frame df then Inr df
      else case engineer np self df target_col of Inl e \<Rightarrow> Inl e | Inr d \<Rightarrow> Inr (dropna d))"
  by (simp add: create_features_def Let_def split: sum.splits)

lemma for_each_total:
  assumes "\<And>s x. \<exists>s'. body s x = Inr s'"
  shows "\<exists>s'. for_each body s xs = Inr s'"
proof (induction xs arbitrary: s)
  case Nil
  then show ?case by simp
next
  case (Cons x xs)
  from assms obtain s1 where "body s x = Inr s1" by blast
  with Cons.IH [of s1] show ?case by simp
qed

lemma add_rolling_features_total:
  assumes "0 < window_size self"
  shows "\<exists>d. add_rolling_features np self df = Inr d"
  unfolding add_rolling_features_def
  using assms
  by (intro for_each_total) (simp add: add_rolling_col_def Let_def split: option.splits)

lemma engineer_total:
  assumes "''timestamp'' \<in> set (columns df)" and "0 < window_size self"
  shows "\<exists>d. engineer np self df target_col = Inr d"
proof -
  from assms(1) obtain key where key: "map_of (cols df) ''timestamp'' = Some key"
    by (auto simp: in_columns_iff)
  obtain r where "add_rolling_features np self
      (add_temporal_features (add_basic_features np (sort_values df key))) = Inr r"
    using add_rolling_features_total [OF assms(2)] by blast
  with key show ?thesis
    by (simp add: engineer_def Let_def)
qed

section \<open>Row pruning\<close>

lemma eight_readings_features:
  "map_sum id (\<lambda>d. (nrows d, col_of d ''timestamp''))
     (fst (create_features np FeatureEngineer_default eight_readings None []))
   = Inr (1, [Num 21600])"
  by code_simp

lemma healthy_readings_no_null:
  "list_all (\<lambda>(name, xs). list_all (\<lambda>c. c \<noteq> Null) xs) (cols healthy_readings)"
  by code_simp

lemma healthy_readings_engineered:
  "map_sum id (\<lambda>d. map (\<lambda>c. isna (cell_at (col_of d c) 7)) faulty_lag_diff_cols)
     (engineer np FeatureEngineer_default healthy_readings None)
   = Inr [False, False, False, False, True]"
  by code_simp

lemma healthy_readings_features:
  "map_sum id nrows (fst (create_features np FeatureEngineer_default healthy_readings None []))
   = Inr 0"
  by code_simp

lemma history7_features:
  "map_sum id (\<lambda>d. (nrows d, col_of d ''timestamp''))
     (fst (create_features np FeatureEngineer_default history7 None []))
   = Inr (1, [Num 21600])"
  by code_simp

lemma history7_row6:
  "map_sum id (\<lambda>d. row_complete d 6 \<and> ''ambient_light_lag_6'' \<in> set (columns d))
     (engineer np FeatureEngineer_default history7 None) = Inr True"
  by code_simp

lemma row_complete_col:
  assumes "row_complete d i" and "n \<in> set (columns d)"
  shows "cell_at (col_of d n) i \<noteq> Null"
proof -
  from assms(2) obtain xs where xs: "map_of (cols d) n = Some xs"
    by (auto simp: in_columns_iff)
  then have "(n, xs) \<in> set (cols d)" by (rule map_of_SomeD)
  with assms(1) have "cell_at xs i \<noteq> Null"
    by (auto simp: row_complete_def list_all_iff)
  with xs show ?thesis by (simp add: col_of_def)
qed

text \<open>
  C2, as stated, fails. The eight hourly readings of \<open>healthy_readings\<close> have a value in
  every cell. In the engineered frame the last reading (row 7) has a value in the three
  lags and in the difference of the count of faulty lamps, and its percent change, from 0
  to 0, is the missing value 0/0. \<open>create_features\<close> returns no row at all: the rows 6 and
  7 do not survive, so the first six rows are not precisely the rows that are removed.
\<close>

theorem pruning_counterexample:
  "list_all (\<lambda>(name, xs). list_all (\<lambda>c. c \<noteq> Null) xs) (cols healthy_readings)
   \<and> map_sum id (\<lambda>d. map (\<lambda>c. isna (cell_at (col_of d c) 7)) faulty_lag_diff_cols)
       (engineer np_real FeatureEngineer_default healthy_readings None)
     = Inr [False, False, False, False, True]
   \<and> map_sum id nrows
       (fst (create_features np_real FeatureEngineer_default healthy_readings None []))
     = Inr 0"
  by (intro conjI)
    (rule healthy_readings_no_null healthy_readings_engineered healthy_readings_features)+

text \<open>
  C2, amended. For a non-empty frame with a timestamp column (and a window of at least 1),
  \<open>create_features\<close> returns, in their order, the rows \<open>keep\<close> of the engineered frame \<open>d\<close>
  (the time-sorted input with all derived columns), where: a row that is kept has a value
  in every lag, difference and percent-change column of \<open>d\<close>; a row with a value in every
  column is kept; and when one of the three lagged columns is in the input, none of the
  first six rows is kept. Whether a row survives whose only missing values are in other
  columns is left open here.
\<close>

theorem pruning_drops_null_lag_diff_rows:
  assumes "''timestamp'' \<in> set (columns df)" and "0 < window_size self"
    and "\<not> empty_frame df"
  shows "\<exists>d keep. engineer np self df target_col = Inr d
           \<and> fst (create_features np self df target_col lg)
               = Inr (take_rows d (filter keep [0..<nrows d]))
           \<and> (\<forall>i n. keep i \<and> n \<in> set lag_diff_cols \<and> n \<in> set (columns d)
                  \<longrightarrow> cell_at (col_of d n) i \<noteq> Null)
           \<and> (\<forall>i. row_complete d i \<longrightarrow> keep i)
           \<and> (\<forall>c. c \<in> set numeric_cols \<and> c \<in> set (columns df) \<longrightarrow> (\<forall>i<6. \<not> keep i))"
proof -
  from engineer_total [OF assms(1,2)] obtain d
    where d: "engineer np self df target_col = Inr d" by blast
  have out: "fst (create_features np self df target_col lg)
               = Inr (take_rows d (filter (row_complete d) [0..<nrows d]))"
    using d assms(3) by (simp add: create_features_fst dropna_def)
  have nonnull: "\<forall>i n. row_complete d i \<and> n \<in> set lag_diff_cols \<and> n \<in> set (columns d)
                  \<longrightarrow> cell_at (col_of d n) i \<noteq> Null"
    using row_complete_col [of d] by blast
  have first: "\<forall>c. c \<in> set numeric_cols \<and> c \<in> set (columns df)
                 \<longrightarrow> (\<forall>i<6. \<not> row_complete d i)"
  proof (intro allI impI)
    fix c i :: _ assume c: "c \<in> set numeric_cols \<and> c \<in> set (columns df)"
    fix j :: nat assume j: "j < 6"
    from c engineered_lag6 [OF d, of c] obtain xs
      where lag: "map_of (cols d) (c @ ''_lag_6'') = Some (series_shift 6 xs)" by blast
    from lag cell_at_series_shift_null [OF j] show "\<not> row_complete d j"
      by (rule not_row_complete)
  qed
  show ?thesis
    by (rule exI [of _ d], rule exI [of _ "row_complete d"]) (intro conjI d out nonnull first, simp)
qed

theorem pruning_drops_null_lag_diff_rows_witness:
  "''timestamp'' \<in> set (columns history7)
   \<and> 0 < window_size FeatureEngineer_default
   \<and> \<not> empty_frame history7
   \<and> ''ambient_light'' \<in> set numeric_cols \<and> ''ambient_light'' \<in> set (columns history7)
   \<and> (\<exists>d keep. engineer np_real FeatureEngineer_default history7 None = Inr d
         \<and> fst (create_features np_real FeatureEngineer_default history7 None [])
             = Inr (take_rows d (filter keep [0..<nrows d]))
         \<and> (\<forall>i<6. \<not> keep i)
         \<and> row_complete d 6 \<and> keep 6
         \<and> ''ambient_light_lag_6'' \<in> set lag_diff_cols
         \<and> ''ambient_light_lag_6'' \<in> set (columns d)
         \<and> cell_at (col_of d ''ambient_light_lag_6'') 6 \<noteq> Null)
   \<and> map_sum id (\<lambda>d. (nrows d, col_of d ''timestamp''))
         (fst (create_features np_real FeatureEngineer_default history7 None []))
       = Inr (1, [Num 21600])"
proof -
  have h: "''timestamp'' \<in> set (columns history7)"
    "0 < window_size FeatureEngineer_default"
    "\<not> empty_frame history7"
    by (simp_all add: history7_def columns_def FeatureEngineer_default_def empty_frame_def)
  have c: "''ambient_light'' \<in> set numeric_cols \<and> ''ambient_light'' \<in> set (columns history7)"
    by (simp add: history7_def columns_def numeric_cols_def)
  have n: "''ambient_light_lag_6'' \<in> set lag_diff_cols"
    by (simp add: lag_diff_cols_def numeric_cols_def)
  from pruning_drops_null_lag_diff_rows [OF h, of np_real None "[]"]
  obtain d keep where d: "engineer np_real FeatureEngineer_default history7 None = Inr d"
    and out: "fst (create_features np_real FeatureEngineer_default history7 None [])
             = Inr (take_rows d (filter keep [0..<nrows d]))"
    and nonnull: "\<forall>i n. keep i \<and> n \<in> set lag_diff_cols \<and> n \<in> set (columns d)
                    \<longrightarrow> cell_at (col_of d n) i \<noteq> Null"
    and complete: "\<forall>i. row_complete d i \<longrightarrow> keep i"
    and first: "\<forall>c. c \<in> set numeric_cols \<and> c \<in> set (columns history7)
                 \<longrightarrow> (\<forall>i<6. \<not> keep i)"
    by (elim exE conjE) (rule that)
  from first c have six: "\<forall>i<6. \<not> keep i" by blast
  from history7_row6 [of np_real] d
  have r: "row_complete d 6" and m: "''ambient_light_lag_6'' \<in> set (columns d)"
    by simp_all
  from complete r have k: "keep 6" by blast
  from nonnull k n m have v: "cell_at (col_of d ''ambient_light_lag_6'') 6 \<noteq> Null" by blast
  have "\<exists>d keep. engineer np_real FeatureEngineer_default history7 None = Inr d
         \<and> fst (create_features np_real FeatureEngineer_default history7 None [])
             = Inr (take_rows d (filter keep [0..<nrows d]))
         \<and> (\<forall>i<6. \<not> keep i)
         \<and> row_complete d 6 \<and> keep 6
         \<and> ''ambient_light_lag_6'' \<in> set lag_diff_cols
         \<and> ''ambient_light_lag_6'' \<in> set (columns d)
         \<and> cell_at (col_of d ''ambient_light_lag_6'') 6 \<noteq> Null"
    by (rule exI [of _ d], rule exI [of _ keep]) (intro conjI d out six r k n m v)
  with h c history7_features [of np_real] show ?thesis
    by (intro conjI) (assumption | erule conjunct1 | erule conjunct2)+
qed

section \<open>The empty frame\<close>

text \<open>
  C10. On an empty frame (no row or no column) \<open>create_features\<close> returns the frame it
  was given, raises nothing (not even for a missing timestamp column) and logs nothing.
\<close>

theorem create_features_empty_input:
  "empty_frame df \<Longrightarrow> create_features np self df target_col lg = (Inr df, lg)"
  by (simp add: create_features_def)

theorem create_features_empty_input_witness:
  "empty_frame (DataFrame :: cell frame)
   \<and> empty_frame header_only
   \<and> create_features np_real FeatureEngineer_default DataFrame (Some ''failure'') []
       = (Inr DataFrame, [])
   \<and> create_features np_real FeatureEngineer_default header_only None [] = (Inr header_only, [])"
  using create_features_empty_input [where df = DataFrame and np = np_real
      and self = FeatureEngineer_default and target_col = "Some ''failure''" and lg = "[]"]
    create_features_empty_input [where df = header_only
      and np = np_real and self = FeatureEngineer_default and target_col = None and lg = "[]"]
  by (simp add: empty_frame_def DataFrame_def header_only_def)

section \<open>The minimum number of readings\<close>

text \<open>
  C9. When the query returns fewer rows than \<open>min_readings\<close>, \<open>collect_device_data\<close>
  returns the empty frame \<open>pd.DataFrame()\<close>, whatever the rows were.
\<close>

theorem collect_below_min_readings:
  assumes "int (nrows (read_sql device_id
                 (case start_date of None \<Rightarrow> utcnow - 30 * 86400 | Some d \<Rightarrow> d)
                 (case end_date of None \<Rightarrow> utcnow | Some d \<Rightarrow> d))) < min_readings"
  shows "fst (collect_device_data read_sql json_loads utcnow device_id start_date end_date
                min_readings lg) = Inr DataFrame
         \<and> empty_frame (DataFrame :: dcell frame)"
  using assms by (simp add: collect_device_data_def Let_def empty_frame_def DataFrame_def)

theorem collect_below_min_readings_witness:
  "nrows fifty_rows = 50
   \<and> fst (collect_device_data (\<lambda>d s e. fifty_rows) (\<lambda>t. Inl []) 0 ''SL-001'' None None 100 [])
       = Inr DataFrame
   \<and> empty_frame (DataFrame :: dcell frame)"
  using collect_below_min_readings [where read_sql = "\<lambda>d s e. fifty_rows"
      and device_id = "''SL-001''" and start_date = None and end_date = None and utcnow = 0
      and min_readings = 100 and json_loads = "\<lambda>t. Inl []" and lg = "[]"]
  by (simp add: fifty_rows_def)

section \<open>Training on an empty dataset\<close>

text \<open>
  C7. When the data file holds an empty dataset, both training methods raise
  \<open>ValueError('Empty dataset provided')\<close> (the error the specification calls
  EmptyDatasetError), and the files of the model directory are as they were: no model and
  no feature list has been written.
\<close>

theorem training_empty_dataset:
  assumes "read_csv sk data_path = Inr df" and "empty_frame df"
  shows "fst (train_failure_prediction_model np sk self data_path model_name w)
           = Inl (ValueError ''Empty dataset provided'')
       \<and> files (snd (train_failure_prediction_model np sk self data_path model_name w)) = files w
       \<and> fst (train_anomaly_detection_model np sk self data_path model_name w)
           = Inl (ValueError ''Empty dataset provided'')
       \<and> files (snd (train_anomaly_detection_model np sk self data_path model_name w)) = files w"
  using assms
  by (simp add: train_failure_prediction_model_def train_anomaly_detection_model_def info_def)

theorem training_empty_dataset_witness:
  "read_csv (sklearn_of header_only) ''data/training_data.csv'' = Inr header_only
   \<and> empty_frame header_only
   \<and> fst (train_failure_prediction_model np_real (sklearn_of header_only) trainer0
            ''data/training_data.csv'' ''failure_predictor'' world0)
       = Inl (ValueError ''Empty dataset provided'')
   \<and> files (snd (train_failure_prediction_model np_real (sklearn_of header_only) trainer0
            ''data/training_data.csv'' ''failure_predictor'' world0)) = Map.empty
   \<and> fst (train_anomaly_detection_model np_real (sklearn_of header_only) trainer0
            ''data/training_data.csv'' ''anomaly_detector'' world0)
       = Inl (ValueError ''Empty dataset provided'')
   \<and> files (snd (train_anomaly_detection_model np_real (sklearn_of header_only) trainer0
            ''data/training_data.csv'' ''anomaly_detector'' world0)) = Map.empty"
proof -
  have h: "read_csv (sklearn_of header_only) ''data/training_data.csv'' = Inr header_only"
    "empty_frame header_only"
    by (simp_all add: sklearn_of_def header_only_def empty_frame_def)
  from training_empty_dataset [OF h, of np_real trainer0 "''failure_predictor''" world0]
    training_empty_dataset [OF h, of np_real trainer0 "''anomaly_detector''" world0] h
  show ?thesis by (simp add: world0_def)
qed

section \<open>The failure label\<close>

lemma series_shift_back_nth:
  "series_shift_back k xs = map (\<lambda>i. cell_at xs (i + k)) [0..<length xs]"
proof (rule nth_equalityI)
  show "length (series_shift_back k xs) = length (map (\<lambda>i. cell_at xs (i + k)) [0..<length xs])"
    by (simp add: series_shift_back_def)
next
  fix i assume "i < length (series_shift_back k xs)"
  then have i: "i < length xs" by (simp add: series_shift_back_def)
  show "series_shift_back k xs ! i = map (\<lambda>i. cell_at xs (i + k)) [0..<length xs] ! i"
  proof (cases "i + k < length xs")
    case True
    then have "i < length xs - k" by simp
    with True show ?thesis using i
      by (simp add: series_shift_back_def cell_at_def nth_append add.commute)
  next
    case False
    then have "i - (length xs - k) < min k (length xs)" and "\<not> i < length xs - k"
      using i by auto
    then show ?thesis using i False
      by (simp add: series_shift_back_def cell_at_def nth_append)
  qed
qed

lemma fl_gt_Null [simp]: "fl_gt Null b = False"
  by (simp add: fl_gt_def)

lemma astype_int_not_Null [simp]: "astype_int b \<noteq> Null"
  by (simp add: astype_int_def)

lemma target_failure_column:
  assumes "map_of (cols df) ''faulty_lights_count'' = Some f"
  shows "map_of (cols (create_target np df ''failure'')) ''target_failure''
     = Some (map (\<lambda>i. astype_int ((i + 3 < length f \<and> fl_gt (f ! (i + 3)) (Num 0))
                                  \<or> (i + 6 < length f \<and> fl_gt (f ! (i + 6)) (Num 0))))
               [0..<length f])"
proof -
  have "map2 (\<lambda>a b. astype_int (fl_gt a (Num 0) \<or> fl_gt b (Num 0)))
          (series_shift_back 6 f) (series_shift_back 3 f)
      = map (\<lambda>i. astype_int ((i + 3 < length f \<and> fl_gt (f ! (i + 3)) (Num 0))
                                  \<or> (i + 6 < length f \<and> fl_gt (f ! (i + 6)) (Num 0))))
               [0..<length f]"
    by (simp add: series_shift_back_nth map2_map_map cell_at_def disj_commute)
  then show ?thesis
    using assms
    by (simp add: create_target_def Let_def map_of_set_col col_of_def o_def cong: map_cong)
qed


lemma map_of_add_lag_features_numeric:
  assumes "c \<in> set numeric_cols"
  shows "map_of (cols (add_lag_features df default_lags)) c = map_of (cols df) c"
proof -
  from assms consider "c = ''ambient_light''" | "c = ''active_lights_count''"
    | "c = ''faulty_lights_count''"
    by (auto simp: numeric_cols_def)
  then show ?thesis
  proof cases
    case 1
    then show ?thesis
      by (simp add: add_lag_features_def numeric_cols_def map_of_add_lag_col split: option.splits)
  next
    case 2
    then show ?thesis
      by (simp add: add_lag_features_def numeric_cols_def map_of_add_lag_col split: option.splits)
  next
    case 3
    then show ?thesis
      by (simp add: add_lag_features_def numeric_cols_def map_of_add_lag_col split: option.splits)
  qed
qed

text \<open>A numeric column of the engineered frame is the column of the sorted input.\<close>

lemma engineered_numeric_col:
  assumes eng: "engineer np self df target_col = Inr d" and c: "c \<in> set numeric_cols"
  shows "map_of (cols d) c = map_of (cols (sort_values df (col_of df ''timestamp''))) c"
proof -
  from eng obtain key r where key: "map_of (cols df) ''timestamp'' = Some key"
    and r: "add_rolling_features np self
           (add_temporal_features (add_basic_features np (sort_values df key))) = Inr r"
    and d: "d = (case target_col of None \<Rightarrow> add_lag_features (add_light_features np r) default_lags
              | Some t \<Rightarrow> if t \<noteq> [] then create_target np (add_lag_features (add_light_features np r) default_lags) t
                          else add_lag_features (add_light_features np r) default_lags)"
    by (rule engineer_InrE)
  have "map_of (cols d) c = map_of (cols (add_lag_features (add_light_features np r) default_lags)) c"
    using c unfolding d
    by (auto simp: numeric_cols_cases map_of_create_target split: option.splits)
  also have "\<dots> = map_of (cols (add_light_features np r)) c"
    by (rule map_of_add_lag_features_numeric [OF c])
  also have "\<dots> = map_of (cols (sort_values df key)) c"
    by (rule numeric_col_before_lags [OF c r])
  finally show ?thesis using key by (simp add: col_of_def)
qed

text \<open>
  C5. With the label kind \<open>failure\<close> on a frame that has the faulty-light count,
  \<open>create_features\<close> labels the time-sorted frame before it prunes it: the label of row
  \<open>i\<close> is 1 exactly when the count 3 rows ahead or 6 rows ahead is greater than zero, and
  an offset that falls past the end of the frame counts as no failure. The result is the
  labelled frame \<open>d\<close> without its incomplete rows.
\<close>

theorem failure_label_rule:
  assumes "''timestamp'' \<in> set (columns df)" and "0 < window_size self"
    and "\<not> empty_frame df" and "''faulty_lights_count'' \<in> set (columns df)"
  shows "\<exists>d f. engineer np self df (Some ''failure'') = Inr d
           \<and> fst (create_features np self df (Some ''failure'') lg) = Inr (dropna d)
           \<and> f = col_of (sort_values df (col_of df ''timestamp'')) ''faulty_lights_count''
           \<and> col_of d ''faulty_lights_count'' = f
           \<and> col_of d ''target_failure''
               = map (\<lambda>i. astype_int ((i + 3 < length f \<and> fl_gt (f ! (i + 3)) (Num 0))
                                        \<or> (i + 6 < length f \<and> fl_gt (f ! (i + 6)) (Num 0))))
                     [0..<length f]"
proof -
  from engineer_total [OF assms(1,2)] obtain d
    where d: "engineer np self df (Some ''failure'') = Inr d" by blast
  define f where "f = col_of (sort_values df (col_of df ''timestamp'')) ''faulty_lights_count''"
  have faulty: "map_of (cols d) ''faulty_lights_count''
                  = map_of (cols (sort_values df (col_of df ''timestamp''))) ''faulty_lights_count''"
    by (rule engineered_numeric_col [OF d]) (simp add: numeric_cols_def)
  then have same: "col_of d ''faulty_lights_count'' = f"
    by (simp add: col_of_def f_def)
  from assms(4) obtain f0 where "map_of (cols df) ''faulty_lights_count'' = Some f0"
    by (auto simp: in_columns_iff)
  then have sorted: "map_of (cols (sort_values df (col_of df ''timestamp''))) ''faulty_lights_count'' = Some f"
    by (simp add: f_def col_of_def sort_values_def map_of_take_rows)
  from d obtain key r where key: "map_of (cols df) ''timestamp'' = Some key"
    and r: "add_rolling_features np self
           (add_temporal_features (add_basic_features np (sort_values df key))) = Inr r"
    and d': "d = create_target np (add_lag_features (add_light_features np r) default_lags) ''failure''"
    by (rule engineer_InrE) simp
  have "map_of (cols (add_lag_features (add_light_features np r) default_lags)) ''faulty_lights_count''
          = Some f"
    using faulty sorted unfolding d' by (simp add: map_of_create_target)
  then have "col_of d ''target_failure''
               = map (\<lambda>i. astype_int ((i + 3 < length f \<and> fl_gt (f ! (i + 3)) (Num 0))
                                        \<or> (i + 6 < length f \<and> fl_gt (f ! (i + 6)) (Num 0))))
                     [0..<length f]"
    unfolding d' by (simp add: target_failure_column col_of_def)
  moreover have "fst (create_features np self df (Some ''failure'') lg) = Inr (dropna d)"
    using d assms(3) by (simp add: create_features_fst)
  ultimately show ?thesis using d same f_def by blast
qed

lemma seven_readings_labels:
  "map_sum id (\<lambda>d. col_of d ''target_failure'')
     (engineer np FeatureEngineer_default seven_readings (Some ''failure''))
   = Inr [Num 1, Num 0, Num 0, Num 0, Num 0, Num 0, Num 0]"
  by code_simp

theorem failure_label_rule_witness:
  "''timestamp'' \<in> set (columns seven_readings)
   \<and> 0 < window_size FeatureEngineer_default
   \<and> \<not> empty_frame seven_readings
   \<and> ''faulty_lights_count'' \<in> set (columns seven_readings)
   \<and> (\<exists>d f. engineer np_real FeatureEngineer_default seven_readings (Some ''failure'') = Inr d
         \<and> fst (create_features np_real FeatureEngineer_default seven_readings (Some ''failure'') [])
             = Inr (dropna d)
         \<and> f = col_of (sort_values seven_readings (col_of seven_readings ''timestamp''))
                 ''faulty_lights_count''
         \<and> col_of d ''faulty_lights_count'' = f
         \<and> col_of d ''target_failure''
             = map (\<lambda>i. astype_int ((i + 3 < length f \<and> fl_gt (f ! (i + 3)) (Num 0))
                                      \<or> (i + 6 < length f \<and> fl_gt (f ! (i + 6)) (Num 0))))
                   [0..<length f])
   \<and> map_sum id (\<lambda>d. col_of d ''target_failure'')
         (engineer np_real FeatureEngineer_default seven_readings (Some ''failure''))
       = Inr [Num 1, Num 0, Num 0, Num 0, Num 0, Num 0, Num 0]"
proof -
  have h: "''timestamp'' \<in> set (columns seven_readings)"
    "0 < window_size FeatureEngineer_default"
    "\<not> empty_frame seven_readings"
    "''faulty_lights_count'' \<in> set (columns seven_readings)"
    by (simp_all add: seven_readings_def columns_def FeatureEngineer_default_def empty_frame_def)
  from failure_label_rule [OF h, of np_real "[]"] h seven_readings_labels [of np_real]
  show ?thesis by blast
qed

section \<open>Reductions of a series of numbers\<close>

lemma notna_values_Num: "notna_values (map Num rs) = map Num rs"
  by (induction rs) (simp_all add: notna_values_def)

lemma foldl_fl_add_Num: "foldl fl_add (Num a) (map Num rs) = Num (a + sum_list rs)"
  by (induction rs arbitrary: a) (simp_all add: add.assoc)

lemma series_sum_Num: "series_sum (map Num rs) = Num (sum_list rs)"
  by (simp add: series_sum_def notna_values_Num foldl_fl_add_Num)

lemma series_mean_Num:
  "rs \<noteq> [] \<Longrightarrow> series_mean (map Num rs) = Num (sum_list rs / real (length rs))"
  by (simp add: series_mean_def notna_values_Num series_sum_Num)

lemma series_std_Num:
  "series_std np (map Num rs) = Null \<longleftrightarrow> length rs < 2"
proof (cases "length rs < 2")
  case True
  then show ?thesis by (simp add: series_std_def notna_values_Num)
next
  case False
  then have ne: "rs \<noteq> []" by auto
  define mu where "mu = sum_list rs / real (length rs)"
  have sq: "map (\<lambda>v. fl_mul (fl_sub v (Num mu)) (fl_sub v (Num mu))) (map Num rs)
             = map Num (map (\<lambda>r. (r - mu) * (r - mu)) rs)"
    by (simp add: fl_sub_def)
  have "0 \<le> sum_list (map (\<lambda>r. (r - mu) * (r - mu)) rs)"
    by (rule sum_list_nonneg) auto
  then have "0 \<le> sum_list (map (\<lambda>r. (r - mu) * (r - mu)) rs) / real (length rs - 1)"
    by simp
  moreover have "real (length rs - 1) \<noteq> 0" using False by simp
  ultimately show ?thesis
    using False ne
    by (simp add: series_std_def notna_values_Num series_mean_Num Let_def sq foldl_fl_add_Num
        mu_def [symmetric] del: map_map)
qed

lemma fl_min2_Num: "fl_min2 (Num a) (Num b) = Num (min a b)"
  by (auto simp: fl_min2_def fl_gt_def min_def)

lemma fl_max2_Num: "fl_max2 (Num a) (Num b) = Num (max a b)"
  by (auto simp: fl_max2_def fl_gt_def max_def)

lemma foldl_fl_min2_Num: "foldl fl_min2 (Num a) (map Num rs) = Num (fold min rs a)"
  by (induction rs arbitrary: a) (simp_all add: fl_min2_Num min.commute)

lemma foldl_fl_max2_Num: "foldl fl_max2 (Num a) (map Num rs) = Num (fold max rs a)"
  by (induction rs arbitrary: a) (simp_all add: fl_max2_Num max.commute)

lemma fold_min_Min: "fold min rs a = Min (set (a # rs))"
  by (simp only: Min.set_eq_fold)

lemma fold_max_Max: "fold max rs a = Max (set (a # rs))"
  by (simp only: Max.set_eq_fold)

lemma series_min_Num: "rs \<noteq> [] \<Longrightarrow> series_min (map Num rs) = Num (Min (set rs))"
proof (cases rs)
  case Nil
  assume "rs \<noteq> []"
  with Nil show ?thesis by simp
next
  case (Cons a list)
  have "notna_values (map Num (a # list)) = Num a # map Num list"
    using notna_values_Num [of "a # list"] by simp
  then show ?thesis
    unfolding Cons by (simp add: series_min_def foldl_fl_min2_Num fold_min_Min del: set_simps)
qed

lemma series_max_Num: "rs \<noteq> [] \<Longrightarrow> series_max (map Num rs) = Num (Max (set rs))"
proof (cases rs)
  case Nil
  assume "rs \<noteq> []"
  with Nil show ?thesis by simp
next
  case (Cons a list)
  have "notna_values (map Num (a # list)) = Num a # map Num list"
    using notna_values_Num [of "a # list"] by simp
  then show ?thesis
    unfolding Cons by (simp add: series_max_def foldl_fl_max2_Num fold_max_Max del: set_simps)
qed

lemma window_at_Num:
  "window_at w (map finite_only (map Num rs)) i = map Num (drop (Suc i - w) (take (Suc i) rs))"
  by (simp add: window_at_def finite_only_def take_map drop_map o_def)

lemma cell_at_rolling:
  "i < length xs \<Longrightarrow> cell_at (rolling w agg xs) i = agg (window_at w (map finite_only xs) i)"
  by (simp add: cell_at_def rolling_def)

lemma rolling_Num:
  "i < length rs \<Longrightarrow>
   cell_at (rolling w agg (map Num rs)) i = agg (map Num (drop (Suc i - w) (take (Suc i) rs)))"
  using cell_at_rolling [of i "map Num rs" w agg] window_at_Num [of w rs i]
  by simp

lemma length_window:
  "i < length rs \<Longrightarrow> length (drop (Suc i - w) (take (Suc i) rs)) = min (Suc i) w"
  by auto


section \<open>The rolling columns of the engineered frame\<close>

lemma add_rolling_col_own:
  assumes "add_rolling_col np w df c = Inr d" and "map_of (cols df) c = Some xs"
  shows "map_of (cols d) (c @ ''_rolling_mean'') = Some (rolling w series_mean xs)"
    and "map_of (cols d) (c @ ''_rolling_std'') = Some (rolling w (series_std np) xs)"
    and "map_of (cols d) (c @ ''_rolling_min'') = Some (rolling w series_min xs)"
    and "map_of (cols d) (c @ ''_rolling_max'') = Some (rolling w series_max xs)"
  using assms
  by (auto simp: add_rolling_col_def Let_def map_of_set_col split: if_splits)

lemma map_of_add_lag_features_other:
  assumes "n \<notin> set later_cols"
  shows "map_of (cols (add_lag_features df default_lags)) n = map_of (cols df) n"
  using assms
  by (simp add: later_cols_def add_lag_features_def numeric_cols_def map_of_add_lag_col
      split: option.splits)

lemma map_of_after_rolling:
  assumes "n \<notin> set later_cols"
  shows "map_of (cols (case target_col of
                         None \<Rightarrow> add_lag_features (add_light_features np r) default_lags
                       | Some t \<Rightarrow>
                           if t \<noteq> []
                           then create_target np (add_lag_features (add_light_features np r) default_lags) t
                           else add_lag_features (add_light_features np r) default_lags)) n
         = map_of (cols r) n"
proof -
  have "map_of (cols (add_lag_features (add_light_features np r) default_lags)) n
          = map_of (cols (add_light_features np r)) n"
    by (rule map_of_add_lag_features_other [OF assms])
  also have "\<dots> = map_of (cols r) n"
    using assms by (intro map_of_add_light_features) (simp add: later_cols_def)
  finally have lag: "map_of (cols (add_lag_features (add_light_features np r) default_lags)) n
          = map_of (cols r) n" .
  have "map_of (cols (create_target np (add_lag_features (add_light_features np r) default_lags) t)) n
          = map_of (cols r) n" for t
    using assms lag by (simp add: map_of_create_target later_cols_def)
  with lag show ?thesis by (simp split: option.splits)
qed

lemma add_rolling_features_cols:
  assumes r: "add_rolling_features np self df = Inr r" and c: "c \<in> set numeric_cols"
    and xs: "map_of (cols df) c = Some xs"
  shows "map_of (cols r) (c @ ''_rolling_mean'') = Some (rolling (window_size self) series_mean xs)
       \<and> map_of (cols r) (c @ ''_rolling_std'') = Some (rolling (window_size self) (series_std np) xs)
       \<and> map_of (cols r) (c @ ''_rolling_min'') = Some (rolling (window_size self) series_min xs)
       \<and> map_of (cols r) (c @ ''_rolling_max'') = Some (rolling (window_size self) series_max xs)"
proof -
  from r obtain d1 d2 where
    1: "add_rolling_col np (window_size self) df ''ambient_light'' = Inr d1" and
    2: "add_rolling_col np (window_size self) d1 ''active_lights_count'' = Inr d2" and
    3: "add_rolling_col np (window_size self) d2 ''faulty_lights_count'' = Inr r"
    by (auto simp: add_rolling_features_def numeric_cols_def split: sum.splits)
  note keep1 = map_of_add_rolling_col [OF 1]
  note keep2 = map_of_add_rolling_col [OF 2]
  note keep3 = map_of_add_rolling_col [OF 3]
  from c consider "c = ''ambient_light''" | "c = ''active_lights_count''"
    | "c = ''faulty_lights_count''"
    by (auto simp: numeric_cols_def)
  then show ?thesis
  proof cases
    case 1
    with xs have "map_of (cols df) ''ambient_light'' = Some xs" by simp
    from add_rolling_col_own [OF \<open>add_rolling_col np (window_size self) df ''ambient_light'' = Inr d1\<close> this]
    show ?thesis unfolding 1 by (simp add: keep2 keep3)
  next
    case 2
    with xs have "map_of (cols d1) ''active_lights_count'' = Some xs" by (simp add: keep1)
    from add_rolling_col_own [OF \<open>add_rolling_col np (window_size self) d1 ''active_lights_count'' = Inr d2\<close> this]
    show ?thesis unfolding 2 by (simp add: keep3)
  next
    case 3
    with xs have "map_of (cols d2) ''faulty_lights_count'' = Some xs" by (simp add: keep1 keep2)
    from add_rolling_col_own [OF \<open>add_rolling_col np (window_size self) d2 ''faulty_lights_count'' = Inr r\<close> this]
    show ?thesis unfolding 3 by simp
  qed
qed

lemma rolling_names_not_later:
  assumes "c \<in> set numeric_cols"
  shows "c @ ''_rolling_mean'' \<notin> set later_cols" "c @ ''_rolling_std'' \<notin> set later_cols"
    "c @ ''_rolling_min'' \<notin> set later_cols" "c @ ''_rolling_max'' \<notin> set later_cols"
  using assms by (auto simp: numeric_cols_def later_cols_def)

lemma engineered_rolling_cols:
  assumes eng: "engineer np self df target_col = Inr d" and c: "c \<in> set numeric_cols"
    and xs: "map_of (cols (sort_values df (col_of df ''timestamp''))) c = Some xs"
  shows "col_of d (c @ ''_rolling_mean'') = rolling (window_size self) series_mean xs
       \<and> col_of d (c @ ''_rolling_std'') = rolling (window_size self) (series_std np) xs
       \<and> col_of d (c @ ''_rolling_min'') = rolling (window_size self) series_min xs
       \<and> col_of d (c @ ''_rolling_max'') = rolling (window_size self) series_max xs"
proof -
  from eng obtain key r where key: "map_of (cols df) ''timestamp'' = Some key"
    and r: "add_rolling_features np self
           (add_temporal_features (add_basic_features np (sort_values df key))) = Inr r"
    and d: "d = (case target_col of None \<Rightarrow> add_lag_features (add_light_features np r) default_lags
              | Some t \<Rightarrow> if t \<noteq> [] then create_target np (add_lag_features (add_light_features np r) default_lags) t
                          else add_lag_features (add_light_features np r) default_lags)"
    by (rule engineer_InrE)
  from key have k: "col_of df ''timestamp'' = key" by (simp add: col_of_def)
  have "map_of (cols (add_temporal_features (add_basic_features np (sort_values df key)))) c
          = map_of (cols (add_basic_features np (sort_values df key))) c"
    using c by (intro map_of_add_temporal_features) (auto simp: numeric_cols_cases)
  also have "\<dots> = map_of (cols (sort_values df key)) c"
    using c by (intro map_of_add_basic_features) (auto simp: numeric_cols_cases)
  finally have "map_of (cols (add_temporal_features (add_basic_features np (sort_values df key)))) c
          = Some xs"
    using xs k by simp
  from add_rolling_features_cols [OF r c this] show ?thesis
    unfolding d col_of_def
    by (simp add: map_of_after_rolling rolling_names_not_later [OF c])
qed


lemma four_readings_std:
  "map_sum id (\<lambda>d. map isna (col_of d ''ambient_light_rolling_std''))
     (engineer np window3 four_readings None) = Inr [True, False, False, False]"
  by code_simp

lemma four_readings_gap_mean:
  "map_sum id (\<lambda>d. map isna (col_of d ''ambient_light_rolling_mean''))
     (engineer np window3 four_readings_gap None) = Inr [True, False, False, False]"
  by code_simp

lemma four_readings_mean:
  "map_sum id (\<lambda>d. col_of d ''ambient_light_rolling_mean'')
     (engineer np window3 four_readings None) = Inr [Num 10, Num 15, Num 20, Num 30]"
  by code_simp

lemma four_readings_sorted:
  "map_of (cols (sort_values four_readings (col_of four_readings ''timestamp''))) ''ambient_light''
     = Some (map Num [10, 20, 30, 40])"
  by code_simp

text \<open>
  C4, as stated, fails. For the ambient light 10, 20, 30, 40 and a window of 3 the rolling
  standard deviation is missing at the first row (a sample deviation needs two
  observations); and when the first ambient light is itself missing, so is the rolling
  mean of the first row.
\<close>

theorem rolling_null_counterexample:
  "map_sum id (\<lambda>d. map isna (col_of d ''ambient_light_rolling_std''))
     (engineer np_real window3 four_readings None) = Inr [True, False, False, False]
   \<and> map_sum id (\<lambda>d. map isna (col_of d ''ambient_light_rolling_mean''))
       (engineer np_real window3 four_readings_gap None) = Inr [True, False, False, False]"
  using four_readings_std [of np_real] four_readings_gap_mean [of np_real] by simp

text \<open>
  C4, amended. When the time-sorted column holds a number at every row (the numbers
  \<open>rs\<close>) and the window is at least 1, the rolling mean, minimum and maximum of row \<open>i\<close>
  are those of the \<open>min (i + 1) W\<close> samples that end at row \<open>i\<close>, so they are never
  missing; the rolling standard deviation is missing exactly at the first row (and at
  every row when the window is 1). For 10, 20, 30, 40 and a window of 3 the rolling mean
  is 10, 15, 20, 30.
\<close>

theorem rolling_statistics_partial_windows:
  assumes "''timestamp'' \<in> set (columns df)" and "0 < window_size self"
    and "c \<in> set numeric_cols"
    and "map_of (cols (sort_values df (col_of df ''timestamp''))) c = Some (map Num rs)"
    and "i < length rs"
  shows "\<exists>d win. engineer np self df target_col = Inr d
           \<and> win = drop (Suc i - window_size self) (take (Suc i) rs)
           \<and> length win = min (Suc i) (window_size self)
           \<and> cell_at (col_of d (c @ ''_rolling_mean'')) i = Num (sum_list win / real (length win))
           \<and> cell_at (col_of d (c @ ''_rolling_min'')) i = Num (Min (set win))
           \<and> cell_at (col_of d (c @ ''_rolling_max'')) i = Num (Max (set win))
           \<and> (cell_at (col_of d (c @ ''_rolling_std'')) i = Null \<longleftrightarrow> i = 0 \<or> window_size self = 1)"
proof -
  from engineer_total [OF assms(1,2)] obtain d
    where d: "engineer np self df target_col = Inr d" by blast
  define w where "w = window_size self"
  define win where "win = drop (Suc i - w) (take (Suc i) rs)"
  have len: "length win = min (Suc i) w"
    unfolding win_def by (rule length_window [OF assms(5)])
  with assms(2) have ne: "win \<noteq> []" by (auto simp: w_def)
  note cols = engineered_rolling_cols [OF d assms(3,4), folded w_def]
  have roll: "cell_at (rolling w agg (map Num rs)) i = agg (map Num win)" for agg
    using assms(5) unfolding win_def by (simp add: rolling_Num)
  have "cell_at (col_of d (c @ ''_rolling_mean'')) i = Num (sum_list win / real (length win))"
    using cols ne by (simp add: roll series_mean_Num)
  moreover have "cell_at (col_of d (c @ ''_rolling_min'')) i = Num (Min (set win))"
    using cols ne by (simp add: roll series_min_Num)
  moreover have "cell_at (col_of d (c @ ''_rolling_max'')) i = Num (Max (set win))"
    using cols ne by (simp add: roll series_max_Num)
  moreover have "cell_at (col_of d (c @ ''_rolling_std'')) i = Null \<longleftrightarrow> length win < 2"
    using cols by (simp add: roll series_std_Num)
  moreover have "length win < 2 \<longleftrightarrow> i = 0 \<or> w = 1"
    using len assms(2) by (auto simp: w_def)
  ultimately show ?thesis
    using d len unfolding win_def w_def by blast
qed

theorem rolling_statistics_partial_windows_witness:
  "''timestamp'' \<in> set (columns four_readings)
   \<and> 0 < window_size window3
   \<and> ''ambient_light'' \<in> set numeric_cols
   \<and> map_of (cols (sort_values four_readings (col_of four_readings ''timestamp''))) ''ambient_light''
       = Some (map Num [10, 20, 30, 40])
   \<and> (3::nat) < length [10, 20, 30, 40 :: real]
   \<and> (\<exists>d. engineer np_real window3 four_readings None = Inr d
         \<and> cell_at (col_of d ''ambient_light_rolling_mean'') 3 = Num 30
         \<and> cell_at (col_of d ''ambient_light_rolling_min'') 3 = Num 20
         \<and> cell_at (col_of d ''ambient_light_rolling_max'') 3 = Num 40
         \<and> cell_at (col_of d ''ambient_light_rolling_std'') 3 \<noteq> Null)
   \<and> map_sum id (\<lambda>d. col_of d ''ambient_light_rolling_mean'')
         (engineer np_real window3 four_readings None) = Inr [Num 10, Num 15, Num 20, Num 30]"
proof -
  have h: "''timestamp'' \<in> set (columns four_readings)"
    "0 < window_size window3"
    "''ambient_light'' \<in> set numeric_cols"
    by (simp_all add: four_readings_def columns_def window3_def numeric_cols_def)
  have i: "(3::nat) < length [10, 20, 30, 40 :: real]" by simp
  from rolling_statistics_partial_windows [OF h four_readings_sorted i, of np_real None]
  obtain d win where d: "engineer np_real window3 four_readings None = Inr d"
    and win: "win = drop (Suc 3 - window_size window3) (take (Suc 3) [10, 20, 30, 40 :: real])"
    and mean: "cell_at (col_of d (''ambient_light'' @ ''_rolling_mean'')) 3
                 = Num (sum_list win / real (length win))"
    and mn: "cell_at (col_of d (''ambient_light'' @ ''_rolling_min'')) 3 = Num (Min (set win))"
    and mx: "cell_at (col_of d (''ambient_light'' @ ''_rolling_max'')) 3 = Num (Max (set win))"
    and sd: "cell_at (col_of d (''ambient_light'' @ ''_rolling_std'')) 3 = Null
               \<longleftrightarrow> (3::nat) = 0 \<or> window_size window3 = 1"
    by blast
  from win have w: "win = [20, 30, 40]" by (simp add: window3_def)
  have "cell_at (col_of d ''ambient_light_rolling_mean'') 3 = Num 30"
    using mean by (simp add: w)
  moreover have "cell_at (col_of d ''ambient_light_rolling_min'') 3 = Num 20"
    using mn by (simp add: w)
  moreover have "cell_at (col_of d ''ambient_light_rolling_max'') 3 = Num 40"
    using mx by (simp add: w)
  moreover have "cell_at (col_of d ''ambient_light_rolling_std'') 3 \<noteq> Null"
    using sd by (simp add: window3_def)
  ultimately show ?thesis
    using h four_readings_sorted i d four_readings_mean [of np_real] by blast
qed

section \<open>Determinism\<close>

lemma in_place_last:
  "in_place g (length fs) (h\<lparr>frames := fs @ [f]\<rparr>) = h\<lparr>frames := fs @ [g f]\<rparr>"
  by (simp add: in_place_def)

lemma in_place_try_last:
  "in_place_try g (length fs) (h\<lparr>frames := fs @ [f]\<rparr>)
     = (case g f of Inl e \<Rightarrow> Inl e | Inr f' \<Rightarrow> Inr (h\<lparr>frames := fs @ [f']\<rparr>))"
  by (simp add: in_place_try_def split: sum.splits)

text \<open>What a call computes, frame by frame.\<close>

lemma create_features_ref_unfold:
  assumes "self < length (engineers h)" and "df < length (frames h)"
  shows "create_features_ref np self df target_col h =
     (if empty_frame (frames h ! df) then (Inr df, h)
      else
        (case map_of (cols (frames h ! df)) ''timestamp'' of
           None \<Rightarrow> (Inl (KeyError ''timestamp''), h)
         | Some key \<Rightarrow>
             (case add_rolling_features np (engineers h ! self)
                     (add_temporal_features (add_basic_features np (sort_values (frames h ! df) key))) of
                Inl e \<Rightarrow>
                  (Inl e, h\<lparr>frames := frames h
                                @ [add_temporal_features
                                     (add_basic_features np (sort_values (frames h ! df) key))]\<rparr>)
              | Inr r \<Rightarrow>
                  (Inr (Suc (length (frames h))),
                   h\<lparr>frames := frames h
                         @ [(case target_col of
                               None \<Rightarrow> add_lag_features (add_light_features np r) (lags_default h)
                             | Some t \<Rightarrow>
                                 if t \<noteq> []
                                 then create_target np
                                        (add_lag_features (add_light_features np r) (lags_default h)) t
                                 else add_lag_features (add_light_features np r) (lags_default h)),
                            dropna (case target_col of
                               None \<Rightarrow> add_lag_features (add_light_features np r) (lags_default h)
                             | Some t \<Rightarrow>
                                 if t \<noteq> []
                                 then create_target np
                                        (add_lag_features (add_light_features np r) (lags_default h)) t
                                 else add_lag_features (add_light_features np r) (lags_default h))],
                       heap_log := log_to (heap_log h) INFO
                         (''Removed ''
                          @ str_nat (nrows (case target_col of
                               None \<Rightarrow> add_lag_features (add_light_features np r) (lags_default h)
                             | Some t \<Rightarrow>
                                 if t \<noteq> []
                                 then create_target np
                                        (add_lag_features (add_light_features np r) (lags_default h)) t
                                 else add_lag_features (add_light_features np r) (lags_default h))
                              - nrows (dropna (case target_col of
                               None \<Rightarrow> add_lag_features (add_light_features np r) (lags_default h)
                             | Some t \<Rightarrow>
                                 if t \<noteq> []
                                 then create_target np
                                        (add_lag_features (add_light_features np r) (lags_default h)) t
                                 else add_lag_features (add_light_features np r) (lags_default h))))
                          @ '' rows with NaN values'')\<rparr>))))"
  using assms
  by (simp add: create_features_ref_def alloc_def Let_def in_place_last in_place_try_last
      nth_append split: option.splits sum.splits)


lemma returned_frame_create_features_ref:
  assumes "self < length (engineers h)" and "df < length (frames h)"
  shows "returned_frame (create_features_ref np self df target_col h) =
     (if empty_frame (frames h ! df) then Inr (frames h ! df)
      else
        (case map_of (cols (frames h ! df)) ''timestamp'' of
           None \<Rightarrow> Inl (KeyError ''timestamp'')
         | Some key \<Rightarrow>
             (case add_rolling_features np (engineers h ! self)
                     (add_temporal_features (add_basic_features np (sort_values (frames h ! df) key))) of
                Inl e \<Rightarrow> Inl e
              | Inr r \<Rightarrow>
                  Inr (dropna (case target_col of
                               None \<Rightarrow> add_lag_features (add_light_features np r) (lags_default h)
                             | Some t \<Rightarrow>
                                 if t \<noteq> []
                                 then create_target np
                                        (add_lag_features (add_light_features np r) (lags_default h)) t
                                 else add_lag_features (add_light_features np r) (lags_default h))))))"
  using assms
  by (simp add: create_features_ref_unfold returned_frame_def nth_append
      split: option.splits sum.splits)

lemma create_features_ref_keeps:
  assumes "self < length (engineers h)" and "df < length (frames h)"
  shows "take (length (frames h)) (frames (snd (create_features_ref np self df target_col h)))
           = frames h
         \<and> engineers (snd (create_features_ref np self df target_col h)) = engineers h
         \<and> lags_default (snd (create_features_ref np self df target_col h)) = lags_default h"
  using assms
  by (simp add: create_features_ref_unfold split: option.splits sum.splits)

lemma create_features_ref_refines:
  assumes "self < length (engineers h)" and "df < length (frames h)"
    and "lags_default h = default_lags"
  shows "returned_frame (create_features_ref np self df target_col h)
           = fst (create_features np (engineers h ! self) (frames h ! df) target_col lg)
         \<and> heap_log (snd (create_features_ref np self df target_col h))
           = snd (create_features np (engineers h ! self) (frames h ! df) target_col (heap_log h))"
  using assms
  by (simp add: create_features_ref_unfold returned_frame_def create_features_def engineer_def
      Let_def nth_append split: option.splits sum.splits)

text \<open>
  C6. Take two calls of \<open>create_features\<close> in two heaps, that is in two processes or at
  two moments of one process, whatever was called before: one by the engineer \<open>self1\<close> on
  the frame at \<open>df1\<close>, the other by \<open>self2\<close> on the frame at \<open>df2\<close>. If the two frames hold
  the same rows in the same order, the engineers have the same window and the default lag
  list is the same, then the two calls return the same frame, or raise the same error.
  A call changes no object that was there before it: the caller's frame and every other
  frame, the engineers and the default lag list are as they were; the call only adds
  frames and a log record. So the same call made again, on the heap that the first call
  left, returns the same result. With the lag list [1, 3, 6] the returned frame and the
  log are those of \<open>create_features\<close> above. (Numbers are exact here; floating-point
  rounding is not modelled, so two results are identical when their values are equal.)
\<close>

theorem create_features_ref_deterministic:
  assumes "self1 < length (engineers h1)" and "df1 < length (frames h1)"
    and "self2 < length (engineers h2)" and "df2 < length (frames h2)"
    and "frames h1 ! df1 = frames h2 ! df2"
    and "window_size (engineers h1 ! self1) = window_size (engineers h2 ! self2)"
    and "lags_default h1 = lags_default h2"
  shows "returned_frame (create_features_ref np self1 df1 target_col h1)
           = returned_frame (create_features_ref np self2 df2 target_col h2)
         \<and> take (length (frames h1)) (frames (snd (create_features_ref np self1 df1 target_col h1)))
           = frames h1
         \<and> engineers (snd (create_features_ref np self1 df1 target_col h1)) = engineers h1
         \<and> lags_default (snd (create_features_ref np self1 df1 target_col h1)) = lags_default h1
         \<and> returned_frame (create_features_ref np self1 df1 target_col
                             (snd (create_features_ref np self1 df1 target_col h1)))
           = returned_frame (create_features_ref np self1 df1 target_col h1)
         \<and> (lags_default h1 = default_lags \<longrightarrow>
              returned_frame (create_features_ref np self1 df1 target_col h1)
                = fst (create_features np (engineers h1 ! self1) (frames h1 ! df1) target_col lg)
              \<and> heap_log (snd (create_features_ref np self1 df1 target_col h1))
                = snd (create_features np (engineers h1 ! self1) (frames h1 ! df1) target_col
                         (heap_log h1)))"
proof -
  let ?h = "snd (create_features_ref np self1 df1 target_col h1)"
  have fe: "engineers h1 ! self1 = engineers h2 ! self2"
    using assms(6) by simp
  have two: "returned_frame (create_features_ref np self1 df1 target_col h1)
               = returned_frame (create_features_ref np self2 df2 target_col h2)"
    using assms(5,7) fe
    by (simp only: returned_frame_create_features_ref [OF assms(1,2)]
        returned_frame_create_features_ref [OF assms(3,4)])
  note keeps = create_features_ref_keeps [OF assms(1,2), of np target_col]
  from keeps have frames: "take (length (frames h1)) (frames ?h) = frames h1"
    and engs: "engineers ?h = engineers h1" and lags: "lags_default ?h = lags_default h1"
    by simp_all
  have "min (length (frames h1)) (length (frames ?h)) = length (frames h1)"
    using arg_cong [OF frames, of length] by simp
  then have len: "length (frames h1) \<le> length (frames ?h)" by arith
  have same: "frames ?h ! df1 = frames h1 ! df1"
    using frames assms(2) by (metis nth_take)
  have self': "self1 < length (engineers ?h)" using engs assms(1) by simp
  have df': "df1 < length (frames ?h)" using len assms(2) by simp
  have again: "returned_frame (create_features_ref np self1 df1 target_col ?h)
                 = returned_frame (create_features_ref np self1 df1 target_col h1)"
    using same engs lags
    by (simp only: returned_frame_create_features_ref [OF self' df']
        returned_frame_create_features_ref [OF assms(1,2)])
  have pure: "lags_default h1 = default_lags \<longrightarrow>
              returned_frame (create_features_ref np self1 df1 target_col h1)
                = fst (create_features np (engineers h1 ! self1) (frames h1 ! df1) target_col lg)
              \<and> heap_log (snd (create_features_ref np self1 df1 target_col h1))
                = snd (create_features np (engineers h1 ! self1) (frames h1 ! df1) target_col
                         (heap_log h1))"
    using create_features_ref_refines [OF assms(1,2)] by blast
  from two frames engs lags again pure show ?thesis by (intro conjI)
qed


theorem create_features_ref_deterministic_witness:
  "0 < length (engineers heap_training) \<and> 0 < length (frames heap_training)
   \<and> 0 < length (engineers heap_online) \<and> 2 < length (frames heap_online)
   \<and> frames heap_training ! 0 = frames heap_online ! 2
   \<and> window_size (engineers heap_training ! 0) = window_size (engineers heap_online ! 0)
   \<and> lags_default heap_training = lags_default heap_online
   \<and> lags_default heap_training = default_lags
   \<and> returned_frame (create_features_ref np_real 0 0 None heap_training)
       = returned_frame (create_features_ref np_real 0 2 None heap_online)
   \<and> take (length (frames heap_training))
         (frames (snd (create_features_ref np_real 0 0 None heap_training)))
       = frames heap_training
   \<and> map_sum id (\<lambda>d. (nrows d, col_of d ''timestamp''))
         (returned_frame (create_features_ref np_real 0 0 None heap_training))
       = Inr (1, [Num 21600])"
proof -
  have h: "0 < length (engineers heap_training)" "0 < length (frames heap_training)"
    "0 < length (engineers heap_online)" "2 < length (frames heap_online)"
    "frames heap_training ! 0 = frames heap_online ! 2"
    "window_size (engineers heap_training ! 0) = window_size (engineers heap_online ! 0)"
    "lags_default heap_training = lags_default heap_online"
    by (simp_all add: heap_training_def heap_online_def FeatureEngineer_default_def)
  have l: "lags_default heap_training = default_lags"
    by (simp add: heap_training_def)
  have at: "engineers heap_training ! 0 = FeatureEngineer_default"
    "frames heap_training ! 0 = eight_readings"
    by (simp_all add: heap_training_def)
  note t = create_features_ref_deterministic [OF h, where np = np_real and target_col = None
      and lg = "[]"]
  from t have two: "returned_frame (create_features_ref np_real 0 0 None heap_training)
       = returned_frame (create_features_ref np_real 0 2 None heap_online)"
    by (rule conjunct1)
  from t have keeps: "take (length (frames heap_training))
         (frames (snd (create_features_ref np_real 0 0 None heap_training)))
       = frames heap_training"
    by (elim conjE)
  from t have "lags_default heap_training = default_lags \<longrightarrow>
      returned_frame (create_features_ref np_real 0 0 None heap_training)
        = fst (create_features np_real (engineers heap_training ! 0) (frames heap_training ! 0)
                 None [])
      \<and> heap_log (snd (create_features_ref np_real 0 0 None heap_training))
        = snd (create_features np_real (engineers heap_training ! 0) (frames heap_training ! 0)
                 None (heap_log heap_training))"
    by (elim conjE)
  from this l have "returned_frame (create_features_ref np_real 0 0 None heap_training)
        = fst (create_features np_real (engineers heap_training ! 0) (frames heap_training ! 0)
                 None [])
      \<and> heap_log (snd (create_features_ref np_real 0 0 None heap_training))
        = snd (create_features np_real (engineers heap_training ! 0) (frames heap_training ! 0)
                 None (heap_log heap_training))"
    by (rule mp)
  then have "returned_frame (create_features_ref np_real 0 0 None heap_training)
        = fst (create_features np_real FeatureEngineer_default eight_readings None [])"
    by (simp only: at)
  then have out: "map_sum id (\<lambda>d. (nrows d, col_of d ''timestamp''))
         (returned_frame (create_features_ref np_real 0 0 None heap_training))
       = Inr (1, [Num 21600])"
    by (simp only: eight_readings_features [of np_real])
  from h l two keeps out show ?thesis by (intro conjI)
qed

section \<open>The substitute label\<close>

lemma engineered_target_present:
  assumes eng: "engineer np self df (Some ''failure'') = Inr d"
    and faulty: "''faulty_lights_count'' \<in> set (columns d)"
  shows "''target_failure'' \<in> set (columns d)"
proof -
  from eng obtain key r where
    d: "d = create_target np (add_lag_features (add_light_features np r) default_lags) ''failure''"
    by (rule engineer_InrE) simp
  from faulty have "map_of (cols d) ''faulty_lights_count'' \<noteq> None"
    by (simp add: in_columns_iff)
  then obtain f where
    "map_of (cols (add_lag_features (add_light_features np r) default_lags)) ''faulty_lights_count''
       = Some f"
    unfolding d by (auto simp: map_of_create_target)
  from target_failure_column [OF this, of np] show ?thesis
    unfolding d by (simp add: in_columns_iff)
qed

lemma create_features_target_present:
  assumes "fst (create_features np self df (Some ''failure'') lg) = Inr out"
    and "\<not> empty_frame df" and "''faulty_lights_count'' \<in> set (columns out)"
  shows "''target_failure'' \<in> set (columns out)"
proof -
  from assms(1,2) obtain d where d: "engineer np self df (Some ''failure'') = Inr d"
    and out: "out = dropna d"
    by (auto simp: create_features_fst split: sum.splits)
  from assms(3) have "''faulty_lights_count'' \<in> set (columns d)"
    by (simp add: out dropna_def columns_take_rows)
  from engineered_target_present [OF d this] show ?thesis
    by (simp add: out dropna_def columns_take_rows)
qed

text \<open>
  C8 does not hold of the code. Whenever the engineered frame has no
  \<open>target_failure\<close> column, it has no \<open>faulty_lights_count\<close> column either (the label step
  adds the one whenever the other is there), so the substitute label of line 56 reads a
  column that is not there: training raises \<open>KeyError\<close> and writes no file.
\<close>

theorem synthetic_label_fallback_raises:
  assumes "read_csv sk data_path = Inr df" and "\<not> empty_frame df"
    and "map_sum id (\<lambda>out. ''target_failure'' \<in> set (columns out))
           (fst (create_features np (trainer_feature_engineer self) df (Some ''failure'') []))
         = Inr False"
  shows "fst (train_failure_prediction_model np sk self data_path model_name w)
           = Inl (KeyError ''faulty_lights_count'')
       \<and> files (snd (train_failure_prediction_model np sk self data_path model_name w)) = files w"
proof -
  define lg0 where "lg0 = logged (info ''Engineering features...'' (info (''Loading data from '' @ data_path) w))"
  obtain r lg where cf: "create_features np (trainer_feature_engineer self) df (Some ''failure'') lg0
                          = (r, lg)"
    by (cases "create_features np (trainer_feature_engineer self) df (Some ''failure'') lg0")
  have "fst (create_features np (trainer_feature_engineer self) df (Some ''failure'') lg0)
          = fst (create_features np (trainer_feature_engineer self) df (Some ''failure'') [])"
    by (simp add: create_features_fst)
  with cf have "map_sum id (\<lambda>out. ''target_failure'' \<in> set (columns out)) r = Inr False"
    using assms(3) by simp
  then obtain out where r: "r = Inr out" and no: "''target_failure'' \<notin> set (columns out)"
    by (cases r) auto
  have "''faulty_lights_count'' \<notin> set (columns out)"
    using create_features_target_present [of np "trainer_feature_engineer self" df lg0 out]
      cf r no assms(2) by auto
  then have none: "map_of (cols out) ''faulty_lights_count'' = None"
    by (simp add: in_columns_iff)
  show ?thesis
    using assms(1,2) cf r no none
    by (simp add: train_failure_prediction_model_def Let_def lg0_def ensure_target_def info_def)
qed

lemma eight_readings_no_target:
  "map_sum id (\<lambda>out. ''target_failure'' \<in> set (columns out))
     (fst (create_features np FeatureEngineer_default eight_readings (Some ''failure'') []))
   = Inr False"
  by code_simp

theorem synthetic_label_fallback_raises_witness:
  "read_csv (sklearn_of eight_readings) ''data/training_data.csv'' = Inr eight_readings
   \<and> \<not> empty_frame eight_readings
   \<and> map_sum id (\<lambda>out. ''target_failure'' \<in> set (columns out))
         (fst (create_features np_real (trainer_feature_engineer trainer0) eight_readings
                (Some ''failure'') [])) = Inr False
   \<and> fst (train_failure_prediction_model np_real (sklearn_of eight_readings) trainer0
            ''data/training_data.csv'' ''failure_predictor'' world0)
       = Inl (KeyError ''faulty_lights_count'')
   \<and> files (snd (train_failure_prediction_model np_real (sklearn_of eight_readings) trainer0
            ''data/training_data.csv'' ''failure_predictor'' world0)) = Map.empty"
proof -
  have h: "read_csv (sklearn_of eight_readings) ''data/training_data.csv'' = Inr eight_readings"
    "\<not> empty_frame eight_readings"
    "map_sum id (\<lambda>out. ''target_failure'' \<in> set (columns out))
         (fst (create_features np_real (trainer_feature_engineer trainer0) eight_readings
                (Some ''failure'') [])) = Inr False"
    using eight_readings_no_target [of np_real]
    by (simp_all add: sklearn_of_def eight_readings_def empty_frame_def trainer0_def)
  from synthetic_label_fallback_raises [OF h, of "''failure_predictor''" world0] h
  show ?thesis by (simp add: world0_def)
qed

section \<open>The frames that inference computes are well-formed\<close>

lemma wf_take_rows: "wf_frame (take_rows df idx)"
  by (simp add: wf_frame_def take_rows_def list_all_iff case_prod_beta)

lemma wf_DataFrame_of_dict: "wf_frame (DataFrame_of_dict d)"
  by (simp add: wf_frame_def DataFrame_of_dict_def list_all_iff case_prod_beta)

lemma wf_col_length:
  assumes "wf_frame df" and "map_of (cols df) c = Some xs"
  shows "length xs = nrows df"
proof -
  from assms(2) have "(c, xs) \<in> set (cols df)" by (rule map_of_SomeD)
  with assms(1) show ?thesis by (auto simp: wf_frame_def list_all_iff)
qed

lemma length_col_or_null: "wf_frame df \<Longrightarrow> length (col_or_null df name) = nrows df"
  by (auto simp: col_or_null_def wf_col_length split: option.splits)

lemma wf_pd_concat:
  assumes "wf_frame a" and "wf_frame b"
  shows "wf_frame (pd_concat a b)"
proof -
  have "length (col_or_null a name) = nrows a" "length (col_or_null b name) = nrows b" for name
    using assms by (simp_all add: length_col_or_null)
  then show ?thesis
    by (auto simp: wf_frame_def pd_concat_def list_all_iff)
qed

lemma context_features_wf:
  assumes "context_features np self sensor_data historical_data lg = (Inr df, lg')"
  shows "wf_frame df"
proof -
  define df0 where "df0 = (case historical_data of
                  None \<Rightarrow> DataFrame_of_dict sensor_data
                | Some h \<Rightarrow> if \<not> empty_frame h then pd_concat (tail 10 h) (DataFrame_of_dict sensor_data)
                            else DataFrame_of_dict sensor_data)"
  have wf0: "wf_frame df0"
    by (simp add: df0_def wf_DataFrame_of_dict wf_pd_concat tail_def wf_take_rows
        split: option.splits)
  from assms have "fst (create_features np (feature_engineer self) df0 None lg) = Inr df"
    by (simp add: context_features_def Let_def df0_def)
  then show ?thesis
    using wf0
    by (auto simp: create_features_fst dropna_def wf_take_rows split: if_splits sum.splits)
qed

section \<open>The input vector of a model\<close>

lemma extract_features_present:
  assumes wf: "wf_frame df" and all: "filter (\<lambda>c. c \<notin> set (columns df)) schema = []"
  shows "extract_features df (Some schema)
           = Inr (if nrows df = 0 then []
                  else [map (\<lambda>c. if col_of df c ! (nrows df - 1) = Null then Num 0
                                  else col_of df c ! (nrows df - 1)) schema])"
proof (cases "nrows df = 0")
  case True
  then show ?thesis
    using all
    by (simp add: extract_features_def getitem_cols_def iloc_last_def tail_def take_rows_def
        frame_values_def fillna0_def)
next
  case False
  then obtain m where n: "nrows df = Suc m" by (cases "nrows df") auto
  define fill where "fill = (\<lambda>c. if c = Null then Num 0 else c)"
  have cell: "cell_at (map fill (col_of df c)) m
                = (if col_of df c ! m = Null then Num 0 else col_of df c ! m)"
    if "c \<in> set schema" for c
  proof -
    from all that have "c \<in> set (columns df)" by (auto simp: filter_empty_conv)
    then obtain xs where xs: "map_of (cols df) c = Some xs" by (auto simp: in_columns_iff)
    with wf have "length xs = nrows df" by (rule wf_col_length)
    with n xs show ?thesis by (simp add: cell_at_def col_of_def fill_def)
  qed
  have sel: "getitem_cols df (Some schema)
               = Inr \<lparr>nrows = Suc m, cols = map (\<lambda>c. (c, col_of df c)) schema\<rparr>"
    using all n by (simp add: getitem_cols_def)
  have "frame_values (iloc_last (fillna0 \<lparr>nrows = Suc m, cols = map (\<lambda>c. (c, col_of df c)) schema\<rparr>))
          = [map (\<lambda>c. cell_at (map fill (col_of df c)) m) schema]"
    by (simp add: iloc_last_def tail_def take_rows_def frame_values_def fillna0_def o_def
        cell_at_def [of "[_]"] fill_def)
  also have "\<dots> = [map (\<lambda>c. if col_of df c ! m = Null then Num 0 else col_of df c ! m) schema]"
    using cell by simp
  finally show ?thesis
    using n by (simp add: extract_features_def sel)
qed

lemma extract_features_missing:
  assumes "filter (\<lambda>c. c \<notin> set (columns df)) schema = c # cs"
  shows "extract_features df (Some schema) = Inl (KeyError (c @ '' not in index''))"
  using assms by (simp add: extract_features_def getitem_cols_def)


lemma predict_failure_error:
  assumes "failure_model self = Some m"
    and "fst (predict_failure_try np self m sensor_data historical_data now lg) = Inl e"
  shows "fst (predict_failure np self sensor_data historical_data now lg)
           = Inr (ErrorEntry (error_str e))"
  using assms by (auto simp: predict_failure_def split: prod.splits sum.splits)

lemma detect_anomaly_error:
  assumes "anomaly_model self = Some m"
    and "fst (detect_anomaly_try np self m sensor_data historical_data now lg) = Inl e"
  shows "fst (detect_anomaly np self sensor_data historical_data now lg)
           = Inr (ErrorEntry (error_str e))"
  using assms by (auto simp: detect_anomaly_def split: prod.splits sum.splits)

text \<open>
  C1, amended. Let \<open>df\<close> be the frame that an inference call has engineered from the
  reading and its context. When every column of the schema is a column of \<open>df\<close>, the
  input of the model is the last row of \<open>df\<close> (no row when \<open>df\<close> has none): for each schema
  column in order its value, zero when that value is missing, the columns outside the
  schema dropped. When a schema column is not a column of \<open>df\<close>, the selection raises
  \<open>KeyError\<close> and the prediction of that kind (failure or anomaly) is the error entry
  with that message: a column that is absent is not filled with zero.
\<close>

theorem schema_selection:
  assumes "context_features np self sensor_data historical_data lg = (Inr df, lg')"
  shows "(filter (\<lambda>c. c \<notin> set (columns df)) schema = [] \<longrightarrow>
            extract_features df (Some schema)
              = Inr (if nrows df = 0 then []
                     else [map (\<lambda>c. if col_of df c ! (nrows df - 1) = Null then Num 0
                                     else col_of df c ! (nrows df - 1)) schema]))
       \<and> (\<forall>c cs. filter (\<lambda>c. c \<notin> set (columns df)) schema = c # cs \<longrightarrow>
            extract_features df (Some schema) = Inl (KeyError (c @ '' not in index''))
            \<and> (\<forall>m. failure_model self = Some m \<and> failure_features self = Some schema \<longrightarrow>
                  fst (predict_failure np self sensor_data historical_data now lg)
                    = Inr (ErrorEntry (error_str (KeyError (c @ '' not in index'')))))
            \<and> (\<forall>m. anomaly_model self = Some m \<and> anomaly_features self = Some schema \<longrightarrow>
                  fst (detect_anomaly np self sensor_data historical_data now lg)
                    = Inr (ErrorEntry (error_str (KeyError (c @ '' not in index''))))))"
proof (intro conjI impI allI)
  assume "filter (\<lambda>c. c \<notin> set (columns df)) schema = []"
  with context_features_wf [OF assms]
  show "extract_features df (Some schema)
              = Inr (if nrows df = 0 then []
                     else [map (\<lambda>c. if col_of df c ! (nrows df - 1) = Null then Num 0
                                     else col_of df c ! (nrows df - 1)) schema])"
    by (rule extract_features_present)
next
  fix c cs assume "filter (\<lambda>c. c \<notin> set (columns df)) schema = c # cs"
  then show "extract_features df (Some schema) = Inl (KeyError (c @ '' not in index''))"
    by (rule extract_features_missing)
next
  fix c cs m
  assume miss: "filter (\<lambda>c. c \<notin> set (columns df)) schema = c # cs"
    and m: "failure_model self = Some m \<and> failure_features self = Some schema"
  have "fst (predict_failure_try np self m sensor_data historical_data now lg)
          = Inl (KeyError (c @ '' not in index''))"
    using assms m extract_features_missing [OF miss]
    by (simp add: predict_failure_try_def failure_of_frame_def)
  with m show "fst (predict_failure np self sensor_data historical_data now lg)
                 = Inr (ErrorEntry (error_str (KeyError (c @ '' not in index''))))"
    by (intro predict_failure_error) auto
next
  fix c cs m
  assume miss: "filter (\<lambda>c. c \<notin> set (columns df)) schema = c # cs"
    and m: "anomaly_model self = Some m \<and> anomaly_features self = Some schema"
  have "fst (detect_anomaly_try np self m sensor_data historical_data now lg)
          = Inl (KeyError (c @ '' not in index''))"
    using assms m extract_features_missing [OF miss]
    by (simp add: detect_anomaly_try_def anomaly_of_frame_def)
  with m show "fst (detect_anomaly np self sensor_data historical_data now lg)
                 = Inr (ErrorEntry (error_str (KeyError (c @ '' not in index''))))"
    by (intro detect_anomaly_error) auto
qed

lemma reading8_frame:
  "map_sum id
     (\<lambda>d. (nrows d,
           filter (\<lambda>c. c \<notin> set (columns d)) [''ambient_light'', ''ambient_light_lag_1''],
           filter (\<lambda>c. c \<notin> set (columns d)) [''ambient_light'', ''mean_light_ldr''],
           map (\<lambda>c. col_of d c ! 1) [''ambient_light'', ''ambient_light_lag_1'']))
     (fst (context_features np (service fm schema) reading8 (Some history7) []))
   = Inr (2, [], [''mean_light_ldr''], [Num 80, Num 70])"
  by code_simp

lemma reading8_failure_ok:
  "fst (predict_failure np (service (Some constant_classifier) [''ambient_light'', ''ambient_light_lag_1''])
          reading8 (Some history7) ''now'' [])
     = Inr (FailureEntry 0 1 0 ''now'')"
  by code_simp

lemma reading8_failure_missing:
  "fst (predict_failure np (service (Some constant_classifier) [''ambient_light'', ''mean_light_ldr''])
          reading8 (Some history7) ''now'' [])
     = Inr (ErrorEntry (error_str (KeyError ''mean_light_ldr not in index'')))"
  by code_simp

lemma acd_row_missing:
  "extract_features acd_row (Some [''a'', ''b'', ''c'']) = Inl (KeyError ''b not in index'')"
  by code_simp

text \<open>
  C1, as stated, fails. The schema a, b, c on the computed columns a, c, d does not give
  the vector (a, 0, c) but \<open>KeyError\<close>; and for a reading with seven readings of
  history, a loaded model returns a prediction with a schema of two computed columns,
  and the error entry once the schema names a column that was not computed.
\<close>

theorem reindex_counterexample:
  "extract_features acd_row (Some [''a'', ''b'', ''c'']) = Inl (KeyError ''b not in index'')
   \<and> fst (predict_failure np_real
            (service (Some constant_classifier) [''ambient_light'', ''ambient_light_lag_1''])
            reading8 (Some history7) ''now'' [])
       = Inr (FailureEntry 0 1 0 ''now'')
   \<and> fst (predict_failure np_real
            (service (Some constant_classifier) [''ambient_light'', ''mean_light_ldr''])
            reading8 (Some history7) ''now'' [])
       = Inr (ErrorEntry (error_str (KeyError ''mean_light_ldr not in index'')))"
  by (intro conjI) (rule acd_row_missing reading8_failure_ok reading8_failure_missing)+

theorem schema_selection_witness:
  "\<exists>df lg'. context_features np_real
               (service (Some constant_classifier) [''ambient_light'', ''mean_light_ldr''])
               reading8 (Some history7) [] = (Inr df, lg')
     \<and> extract_features df (Some [''ambient_light'', ''ambient_light_lag_1''])
         = Inr [[Num 80, Num 70]]
     \<and> extract_features df (Some [''ambient_light'', ''mean_light_ldr''])
         = Inl (KeyError ''mean_light_ldr not in index'')
     \<and> fst (predict_failure np_real
              (service (Some constant_classifier) [''ambient_light'', ''mean_light_ldr''])
              reading8 (Some history7) ''now'' [])
         = Inr (ErrorEntry (error_str (KeyError ''mean_light_ldr not in index'')))"
proof -
  let ?self = "service (Some constant_classifier) [''ambient_light'', ''mean_light_ldr'']"
  obtain r lg' where ctx: "context_features np_real ?self reading8 (Some history7) [] = (r, lg')"
    by (cases "context_features np_real ?self reading8 (Some history7) []")
  with reading8_frame [of np_real "Some constant_classifier" "[''ambient_light'', ''mean_light_ldr'']"]
  obtain df where r: "r = Inr df" and n: "nrows df = 2"
    and ok: "filter (\<lambda>c. c \<notin> set (columns df)) [''ambient_light'', ''ambient_light_lag_1''] = []"
    and miss: "filter (\<lambda>c. c \<notin> set (columns df)) [''ambient_light'', ''mean_light_ldr'']
                 = [''mean_light_ldr'']"
    and last: "map (\<lambda>c. col_of df c ! 1) [''ambient_light'', ''ambient_light_lag_1'']
                 = [Num 80, Num 70]"
    by (cases r) auto
  from ctx r have c: "context_features np_real ?self reading8 (Some history7) [] = (Inr df, lg')"
    by simp
  have m: "failure_model ?self = Some constant_classifier
             \<and> failure_features ?self = Some [''ambient_light'', ''mean_light_ldr'']"
    by (simp add: service_def)
  from schema_selection [OF c, of "[''ambient_light'', ''ambient_light_lag_1'']" "''now''"] ok n last
  have 1: "extract_features df (Some [''ambient_light'', ''ambient_light_lag_1''])
             = Inr [[Num 80, Num 70]]"
    by simp
  from schema_selection [OF c, of "[''ambient_light'', ''mean_light_ldr'']" "''now''"] miss m
  have 2: "extract_features df (Some [''ambient_light'', ''mean_light_ldr''])
             = Inl (KeyError ''mean_light_ldr not in index'')"
    and 3: "fst (predict_failure np_real ?self reading8 (Some history7) ''now'' [])
              = Inr (ErrorEntry (error_str (KeyError ''mean_light_ldr not in index'')))"
    by auto
  from c 1 2 3 show ?thesis by blast
qed

section \<open>Containment of failures in \<open>predict\<close>\<close>

lemma context_features_fst:
  "fst (context_features np self sensor_data historical_data lg)
     = fst (create_features np (feature_engineer self)
              (case historical_data of
                 None \<Rightarrow> DataFrame_of_dict sensor_data
               | Some h \<Rightarrow> if \<not> empty_frame h
                           then pd_concat (tail 10 h) (DataFrame_of_dict sensor_data)
                           else DataFrame_of_dict sensor_data) None [])"
  by (simp add: context_features_def Let_def create_features_fst)

lemma predict_failure_try_fst:
  "fst (predict_failure_try np self m sensor_data historical_data now lg)
     = (case fst (context_features np self sensor_data historical_data lg) of
          Inl e \<Rightarrow> Inl e | Inr df \<Rightarrow> failure_of_frame self m df now)"
  by (simp add: predict_failure_try_def split: prod.splits sum.splits)

lemma detect_anomaly_try_fst:
  "fst (detect_anomaly_try np self m sensor_data historical_data now lg)
     = (case fst (context_features np self sensor_data historical_data lg) of
          Inl e \<Rightarrow> Inl e | Inr df \<Rightarrow> anomaly_of_frame self m df now)"
  by (simp add: detect_anomaly_try_def split: prod.splits sum.splits)

lemma predict_failure_fst:
  "fst (predict_failure np self sensor_data historical_data now lg)
     = (case failure_model self of
          None \<Rightarrow> Inr (ErrorEntry ''Model not loaded'')
        | Some m \<Rightarrow>
            (case fst (predict_failure_try np self m sensor_data historical_data now lg) of
               Inl e \<Rightarrow> Inr (ErrorEntry (error_str e)) | Inr r \<Rightarrow> Inr r))"
  by (auto simp: predict_failure_def split: option.splits prod.splits sum.splits)

lemma detect_anomaly_fst:
  "fst (detect_anomaly np self sensor_data historical_data now lg)
     = (case anomaly_model self of
          None \<Rightarrow> Inr (ErrorEntry ''Model not loaded'')
        | Some m \<Rightarrow>
            (case fst (detect_anomaly_try np self m sensor_data historical_data now lg) of
               Inl e \<Rightarrow> Inr (ErrorEntry (error_str e)) | Inr r \<Rightarrow> Inr r))"
  by (auto simp: detect_anomaly_def split: option.splits prod.splits sum.splits)

lemma predict_failure_returns:
  "\<exists>f lg'. predict_failure np self sensor_data historical_data now lg = (Inr f, lg')"
  by (auto simp: predict_failure_def split: option.splits prod.splits sum.splits)

lemma detect_anomaly_returns:
  "\<exists>a lg'. detect_anomaly np self sensor_data historical_data now lg = (Inr a, lg')"
  by (auto simp: detect_anomaly_def split: option.splits prod.splits sum.splits)

lemma detect_anomaly_unaffected:
  "fst (detect_anomaly np (self\<lparr>failure_model := fm, failure_features := ff\<rparr>)
          sensor_data historical_data now lg1)
     = fst (detect_anomaly np self sensor_data historical_data now lg2)"
proof -
  let ?self = "self\<lparr>failure_model := fm, failure_features := ff\<rparr>"
  have frame: "anomaly_of_frame ?self m df now = anomaly_of_frame self m df now" for m df
    by (simp add: anomaly_of_frame_def)
  have ctx: "fst (context_features np ?self sensor_data historical_data lg1)
               = fst (context_features np self sensor_data historical_data lg2)"
    by (simp add: context_features_fst)
  have "fst (detect_anomaly_try np ?self m sensor_data historical_data now lg1)
          = fst (detect_anomaly_try np self m sensor_data historical_data now lg2)" for m
    by (simp add: detect_anomaly_try_fst ctx frame cong: sum.case_cong)
  then show ?thesis
    by (simp add: detect_anomaly_fst cong: option.case_cong)
qed

lemma predict_failure_unaffected:
  "fst (predict_failure np (self\<lparr>anomaly_model := am, anomaly_features := af\<rparr>)
          sensor_data historical_data now lg1)
     = fst (predict_failure np self sensor_data historical_data now lg2)"
proof -
  let ?self = "self\<lparr>anomaly_model := am, anomaly_features := af\<rparr>"
  have frame: "failure_of_frame ?self m df now = failure_of_frame self m df now" for m df
    by (simp add: failure_of_frame_def)
  have ctx: "fst (context_features np ?self sensor_data historical_data lg1)
               = fst (context_features np self sensor_data historical_data lg2)"
    by (simp add: context_features_fst)
  have "fst (predict_failure_try np ?self m sensor_data historical_data now lg1)
          = fst (predict_failure_try np self m sensor_data historical_data now lg2)" for m
    by (simp add: predict_failure_try_fst ctx frame cong: sum.case_cong)
  then show ?thesis
    by (simp add: predict_failure_fst cong: option.case_cong)
qed

text \<open>
  C3. \<open>predict\<close> always returns a record with a failure entry and an anomaly entry, and
  no exception leaves it. An entry is the error entry \<open>Model not loaded\<close> when the model
  of its kind is not loaded, and the error entry with the message of the exception when
  the computation of its kind raises. Each entry is what its own method returns on any
  logger, whatever the model and the feature list of the other kind are.
\<close>

theorem predict_contains_failures:
  "\<exists>f a lg'.
      predict np self sensor_data historical_data now1 now2 lg
        = (Inr \<lparr>failure = f, anomaly = a\<rparr>, lg')
      \<and> (failure_model self = None \<longrightarrow> f = ErrorEntry ''Model not loaded'')
      \<and> (anomaly_model self = None \<longrightarrow> a = ErrorEntry ''Model not loaded'')
      \<and> (\<forall>m e. failure_model self = Some m
             \<and> fst (predict_failure_try np self m sensor_data historical_data now1 lg) = Inl e
             \<longrightarrow> f = ErrorEntry (error_str e))
      \<and> (\<forall>m e. anomaly_model self = Some m
             \<and> fst (detect_anomaly_try np self m sensor_data historical_data now2 lg) = Inl e
             \<longrightarrow> a = ErrorEntry (error_str e))
      \<and> (\<forall>am af lg0. fst (predict_failure np (self\<lparr>anomaly_model := am, anomaly_features := af\<rparr>)
                            sensor_data historical_data now1 lg0) = Inr f)
      \<and> (\<forall>fm ff lg0. fst (detect_anomaly np (self\<lparr>failure_model := fm, failure_features := ff\<rparr>)
                            sensor_data historical_data now2 lg0) = Inr a)"
proof -
  obtain f lg1 where f: "predict_failure np self sensor_data historical_data now1 lg = (Inr f, lg1)"
    using predict_failure_returns by blast
  obtain a lg2 where a: "detect_anomaly np self sensor_data historical_data now2 lg1 = (Inr a, lg2)"
    using detect_anomaly_returns by blast
  have p: "predict np self sensor_data historical_data now1 now2 lg
             = (Inr \<lparr>failure = f, anomaly = a\<rparr>, lg2)"
    by (simp add: predict_def f a)
  from f have ff: "fst (predict_failure np self sensor_data historical_data now1 lg) = Inr f"
    by simp
  from a have "fst (detect_anomaly np self sensor_data historical_data now2 lg1) = Inr a"
    by simp
  then have aa: "fst (detect_anomaly np self sensor_data historical_data now2 lg0) = Inr a" for lg0
    using detect_anomaly_unaffected [where np = np and self = self and fm = "failure_model self"
        and ff = "failure_features self" and sensor_data = sensor_data
        and historical_data = historical_data and now = now2 and ?lg1.0 = lg0 and ?lg2.0 = lg1]
    by simp
  have 1: "failure_model self = None \<longrightarrow> f = ErrorEntry ''Model not loaded''"
    using ff by (auto simp: predict_failure_fst)
  have 2: "anomaly_model self = None \<longrightarrow> a = ErrorEntry ''Model not loaded''"
    using aa [of lg] by (auto simp: detect_anomaly_fst)
  have 3: "\<forall>m e. failure_model self = Some m
             \<and> fst (predict_failure_try np self m sensor_data historical_data now1 lg) = Inl e
             \<longrightarrow> f = ErrorEntry (error_str e)"
    using ff by (auto simp: predict_failure_fst)
  have 4: "\<forall>m e. anomaly_model self = Some m
             \<and> fst (detect_anomaly_try np self m sensor_data historical_data now2 lg) = Inl e
             \<longrightarrow> a = ErrorEntry (error_str e)"
    using aa [of lg] by (auto simp: detect_anomaly_fst)
  have 5: "\<forall>am af lg0. fst (predict_failure np (self\<lparr>anomaly_model := am, anomaly_features := af\<rparr>)
                            sensor_data historical_data now1 lg0) = Inr f"
    using ff predict_failure_unaffected [where np = np and self = self
        and sensor_data = sensor_data and historical_data = historical_data and now = now1
        and ?lg2.0 = lg]
    by simp
  have 6: "\<forall>fm ff lg0. fst (detect_anomaly np (self\<lparr>failure_model := fm, failure_features := ff\<rparr>)
                            sensor_data historical_data now2 lg0) = Inr a"
    using aa [of lg] detect_anomaly_unaffected [where np = np and self = self
        and sensor_data = sensor_data and historical_data = historical_data and now = now2
        and ?lg2.0 = lg]
    by simp
  show ?thesis
    by (rule exI [of _ f], rule exI [of _ a], rule exI [of _ lg2]) (intro conjI p 1 2 3 4 5 6)
qed

lemma reading8_fail_soft:
  "fst (predict np (service None [''ambient_light'']) reading8 (Some history7) ''t1'' ''t2'' [])
     = Inr \<lparr>failure = ErrorEntry ''Model not loaded'',
            anomaly = AnomalyEntry False (- 1 / 2) ''t2''\<rparr>"
  by code_simp


theorem predict_contains_failures_witness:
  "failure_model (service None [''ambient_light'']) = None
   \<and> (\<exists>f a lg'.
        predict np_real (service None [''ambient_light'']) reading8 (Some history7) ''t1'' ''t2'' []
          = (Inr \<lparr>failure = f, anomaly = a\<rparr>, lg')
        \<and> f = ErrorEntry ''Model not loaded''
        \<and> fst (detect_anomaly np_real
                 (service (Some constant_classifier) [''ambient_light'', ''mean_light_ldr''])
                 reading8 (Some history7) ''t2'' []) = Inr a)
   \<and> fst (predict np_real (service None [''ambient_light'']) reading8 (Some history7)
            ''t1'' ''t2'' [])
       = Inr \<lparr>failure = ErrorEntry ''Model not loaded'',
              anomaly = AnomalyEntry False (- 1 / 2) ''t2''\<rparr>"
proof -
  let ?self = "service None [''ambient_light'']"
  have none: "failure_model ?self = None" by (simp add: service_def)
  from predict_contains_failures [of np_real ?self reading8 "Some history7" "''t1''" "''t2''" "[]"]
  obtain f a lg' where
    p: "predict np_real ?self reading8 (Some history7) ''t1'' ''t2'' []
          = (Inr \<lparr>failure = f, anomaly = a\<rparr>, lg')"
    and f: "failure_model ?self = None \<longrightarrow> f = ErrorEntry ''Model not loaded''"
    and a: "\<forall>fm ff lg0. fst (detect_anomaly np_real (?self\<lparr>failure_model := fm, failure_features := ff\<rparr>)
                            reading8 (Some history7) ''t2'' lg0) = Inr a"
    by (elim exE conjE) (rule that)
  from f none have f': "f = ErrorEntry ''Model not loaded''" by (rule mp)
  have "?self\<lparr>failure_model := Some constant_classifier,
               failure_features := Some [''ambient_light'', ''mean_light_ldr'']\<rparr>
          = service (Some constant_classifier) [''ambient_light'', ''mean_light_ldr'']"
    by (simp add: service_def)
  moreover from a have "fst (detect_anomaly np_real
                 (?self\<lparr>failure_model := Some constant_classifier,
                         failure_features := Some [''ambient_light'', ''mean_light_ldr'']\<rparr>)
                 reading8 (Some history7) ''t2'' []) = Inr a"
    by (elim allE)
  ultimately have a': "fst (detect_anomaly np_real
                 (service (Some constant_classifier) [''ambient_light'', ''mean_light_ldr''])
                 reading8 (Some history7) ''t2'' []) = Inr a"
    by simp
  from none p f' a' reading8_fail_soft [of np_real] show ?thesis
    by (intro conjI exI) assumption+
qed

end
